theory Spec2Isabelle
  imports Complex_Main
begin

section \<open>Sprite-to-mesh conversion scripts: the data model\<close>

text \<open>
  The repository holds five Blender scripts. Each one is a straight sequence of calls into
  Blender's Python interface (\<open>bpy\<close>): load an image, add mesh primitives, build a
  material for each, export the scene as GLB. The embedding keeps the calls and their order
  and makes the state they act on explicit:

  \<^item> the data blocks of the running Blender (\<open>bpy.data.images\<close>, \<open>bpy.data.textures\<close>,
    \<open>bpy.data.materials\<close>, the objects of the scene), the files and directories written and
    the lines printed are the fields of the record \<open>world\<close>;
  \<^item> what the scripts can only observe (whether a path exists, whether an image loads and
    with which size, whether the exporter accepts its arguments, how Python formats a float)
    is the record \<open>host\<close>, a parameter of every function;
  \<^item> a Python exception is a value of \<open>py_exception\<close>; a function that can raise returns
    \<open>(py_exception + 'a) \<times> world\<close>, the world being the one reached when it raised;
  \<^item> Python floats are modelled as real numbers, Python integers as \<open>int\<close>.

  A data block has an identity: an image or a material is referred to by its index in the
  store that holds it, so that two materials with the same contents are still two materials.
\<close>

type_synonym vec3 = "real \<times> real \<times> real"

datatype py_exception =
    ZeroDivisionError
  | ValueError
  | TypeError
  | FileNotFoundError
  | OSError
  | RuntimeError

record image =
  img_id :: nat
  img_filepath :: string
  img_size :: "int \<times> int"

record texture =
  tex_name :: string
  tex_type :: string
  tex_img :: "nat option"

text \<open>
  A material with \<open>use_nodes = True\<close> has a Principled BSDF node. The scripts add at most one
  image texture node to it (\<open>tex_image\<close>: the index of its image), link outputs of that node
  to inputs of the BSDF (\<open>links\<close>: pairs of socket names, output first) and set default
  values of BSDF inputs. \<open>None\<close> is "left as Blender made it".
\<close>

record material =
  mat_name :: string
  use_nodes :: bool
  tex_image :: "nat option"
  links :: "(string \<times> string) list"
  base_color_default :: "(real \<times> real \<times> real \<times> real) option"
  alpha_default :: "real option"
  emission_strength :: "real option"
  blend_method :: string

datatype shape = Cube | Plane | UVSphere

text \<open>
  A mesh object. \<open>obj_dim\<close> is the \<open>size\<close> (cube, plane) or \<open>radius\<close> (sphere) given to
  the operator that added it. \<open>obj_scale\<close> is the scale the script gives it, either with the
  operator's \<open>scale\<close> keyword or by assigning \<open>obj.scale\<close> afterwards. \<open>obj_name\<close> is
  \<open>None\<close> while the script has not named the object. \<open>obj_materials\<close> are the material
  slots, indices into \<open>bpy.data.materials\<close>. \<open>obj_uv_unwrap\<close> is the method and margin of
  the UV unwrap run on it, if any.
\<close>

record obj =
  obj_name :: "string option"
  obj_shape :: shape
  obj_dim :: real
  obj_location :: vec3
  obj_scale :: vec3
  obj_materials :: "nat list"
  obj_uv_unwrap :: "(string \<times> real) option"

record gltf_params =
  gp_filepath :: string
  gp_export_format :: string
  gp_export_materials :: string
  gp_export_normals :: "bool option"
  gp_export_texcoords :: "bool option"
  gp_export_colors :: "bool option"

record world =
  images :: "image list"
  textures :: "texture list"
  materials :: "material list"
  objects :: "obj list"
  files :: "(string \<times> obj list) list"
  dirs :: "string list"
  stdout :: "string list"
  reports :: "(string \<times> string) list"

record host =
  os_path_exists :: "string \<Rightarrow> bool"
  os_path_dirname :: "string \<Rightarrow> string"
  os_path_basename :: "string \<Rightarrow> string"
  makedirs_result :: "string \<Rightarrow> py_exception option"
  images_load_result :: "string \<Rightarrow> py_exception + (int \<times> int)"
  gltf_result :: "gltf_params \<Rightarrow> obj list \<Rightarrow> py_exception option"
  fbx_import_result :: "string \<Rightarrow> py_exception + obj list"
  os_path_getsize :: "string \<Rightarrow> int"
  float_result :: "string \<Rightarrow> real option"
  fmt_2f :: "real \<Rightarrow> string"
  str_float :: "real \<Rightarrow> string"
  str_exc :: "py_exception \<Rightarrow> string"

section \<open>Python and Blender operations the scripts call\<close>

definition py_print :: "string \<Rightarrow> world \<Rightarrow> world" where
  "py_print s w = w\<lparr>stdout := stdout w @ [s]\<rparr>"

text \<open>
  \<open>os.path.exists(p)\<close>: the path was there when the run began (the host says so), or the
  run has written it since.
\<close>

definition path_exists :: "host \<Rightarrow> world \<Rightarrow> string \<Rightarrow> bool" where
  "path_exists h w p = (os_path_exists h p \<or> p \<in> set (map fst (files w)) \<or> p \<in> set (dirs w))"

text \<open>\<open>str\<close> of an integer: decimal digits, with a minus sign when negative.\<close>

definition digit :: "nat \<Rightarrow> char" where
  "digit d = char_of (48 + d)"

fun str_nat :: "nat \<Rightarrow> string" where
  "str_nat n = (if n < 10 then [digit n] else str_nat (n div 10) @ [digit (n mod 10)])"

definition str_int :: "int \<Rightarrow> string" where
  "str_int i = (if i < 0 then CHR ''-'' # str_nat (nat (- i)) else str_nat (nat i))"

text \<open>\<open>a / b\<close> on two Python integers: a float, or ZeroDivisionError.\<close>

definition truediv :: "int \<Rightarrow> int \<Rightarrow> py_exception + real" where
  "truediv a b = (if b = 0 then Inl ZeroDivisionError else Inr (real_of_int a / real_of_int b))"

text \<open>\<open>float(s)\<close>: the host parses the string, or ValueError.\<close>

definition py_float :: "host \<Rightarrow> string \<Rightarrow> py_exception + real" where
  "py_float h s = (case float_result h s of None \<Rightarrow> Inl ValueError | Some x \<Rightarrow> Inr x)"

text \<open>
  \<open>os.makedirs(path, exist_ok=True)\<close>: the empty path names no directory and raises
  FileNotFoundError; for any other path the host says whether the directories can be made.
\<close>

definition os_makedirs :: "host \<Rightarrow> string \<Rightarrow> world \<Rightarrow> (py_exception + unit) \<times> world" where
  "os_makedirs h path w =
     (if path = [] then (Inl FileNotFoundError, w)
      else case makedirs_result h path of
             Some e \<Rightarrow> (Inl e, w)
           | None \<Rightarrow> (Inr (), w\<lparr>dirs := dirs w @ [path]\<rparr>))"

text \<open>\<open>bpy.data.images.load(path)\<close>: a new image data block, or the loader's exception.\<close>

definition images_load :: "host \<Rightarrow> string \<Rightarrow> world \<Rightarrow> (py_exception + image) \<times> world" where
  "images_load h path w =
     (case images_load_result h path of
        Inl e \<Rightarrow> (Inl e, w)
      | Inr sz \<Rightarrow>
          (let img = \<lparr>img_id = length (images w), img_filepath = path, img_size = sz\<rparr>
           in (Inr img, w\<lparr>images := images w @ [img]\<rparr>)))"

text \<open>\<open>bpy.data.materials.new(name)\<close> followed by \<open>use_nodes = True\<close>.\<close>

definition node_material :: "string \<Rightarrow> material" where
  "node_material name =
     \<lparr>mat_name = name, use_nodes = True, tex_image = None, links = [],
      base_color_default = None, alpha_default = None, emission_strength = None,
      blend_method = ''OPAQUE''\<rparr>"

text \<open>
  The scripts configure a material before they append it to an object, and never touch it
  afterwards: the model stores the configured material and returns its index.
\<close>

definition materials_new :: "material \<Rightarrow> world \<Rightarrow> nat \<times> world" where
  "materials_new m w = (length (materials w), w\<lparr>materials := materials w @ [m]\<rparr>)"

text \<open>
  \<open>bpy.ops.mesh.primitive_*_add\<close>: the new object, which is also the active object. The
  scripts finish an object (name, scale, material, unwrap) before they add the next one:
  the model puts the finished object into the scene.
\<close>

definition primitive :: "shape \<Rightarrow> real \<Rightarrow> vec3 \<Rightarrow> vec3 \<Rightarrow> obj" where
  "primitive sh d loc sc =
     \<lparr>obj_name = None, obj_shape = sh, obj_dim = d, obj_location = loc, obj_scale = sc,
      obj_materials = [], obj_uv_unwrap = None\<rparr>"

definition add_object :: "obj \<Rightarrow> world \<Rightarrow> world" where
  "add_object ob w = w\<lparr>objects := objects w @ [ob]\<rparr>"

text \<open>\<open>select_all(action='SELECT')\<close> and \<open>object.delete\<close>: the scene has no object left.\<close>

definition clear_scene :: "world \<Rightarrow> world" where
  "clear_scene w = w\<lparr>objects := []\<rparr>"

text \<open>
  The export of the sprite scripts: \<open>bpy.ops.export_scene.gltf\<close> with \<open>export_colors=True\<close>;
  when that raises TypeError, once more without \<open>export_colors\<close>. Any other exception, and
  any exception of the second call, is not caught.
\<close>

definition export_params :: "string \<Rightarrow> gltf_params" where
  "export_params output_path =
     \<lparr>gp_filepath = output_path, gp_export_format = ''GLB'', gp_export_materials = ''EXPORT'',
      gp_export_normals = Some True, gp_export_texcoords = Some True, gp_export_colors = None\<rparr>"

definition export_scene_gltf :: "host \<Rightarrow> gltf_params \<Rightarrow> world \<Rightarrow> (py_exception + unit) \<times> world" where
  "export_scene_gltf h p w =
     (case gltf_result h p (objects w) of
        Some e \<Rightarrow> (Inl e, w)
      | None \<Rightarrow> (Inr (), w\<lparr>files := files w @ [(gp_filepath p, objects w)]\<rparr>))"

definition export_glb :: "host \<Rightarrow> string \<Rightarrow> world \<Rightarrow> (py_exception + unit) \<times> world" where
  "export_glb h output_path w =
     (case export_scene_gltf h ((export_params output_path)\<lparr>gp_export_colors := Some True\<rparr>) w of
        (Inl TypeError, w1) \<Rightarrow> export_scene_gltf h (export_params output_path) w1
      | r \<Rightarrow> r)"

text \<open>
  The last lines of the three conversion functions that export: print the path, export,
  print the success line and return \<open>True\<close>.
\<close>

definition export_and_report ::
  "host \<Rightarrow> string \<Rightarrow> string \<Rightarrow> world \<Rightarrow> (py_exception + bool) \<times> world" where
  "export_and_report h output_path success_line w =
     (case export_glb h output_path (py_print (''Exporting to: '' @ output_path) w) of
        (Inl e, w1) \<Rightarrow> (Inl e, w1)
      | (Inr u, w1) \<Rightarrow> (Inr True, py_print success_line w1))"

section \<open>The branches shared by the scripts\<close>

text \<open>
  The material of the Extrude branch (the same statements in all three scripts that have
  one): an image texture node on \<open>img\<close>, its colour linked to the base colour and its alpha
  to the alpha, blend mode BLEND, and the alpha input's default set to 1.0.
\<close>

definition extrude_material :: "image \<Rightarrow> material" where
  "extrude_material img =
     (node_material ''SpriteMaterial'')
       \<lparr>tex_image := Some (img_id img),
        links := [(''Color'', ''Base Color''), (''Alpha'', ''Alpha'')],
        blend_method := ''BLEND'',
        alpha_default := Some 1\<rparr>"

text \<open>
  The cube of the Extrude branch: \<open>primitive_cube_add(size=2, location=(0, 0, 0))\<close>,
  \<open>obj.scale = (aspect, 1.0, depth)\<close>, the optional name, the material, and the unwrap
  \<open>bpy.ops.uv.unwrap(method='ANGLE_BASED', margin=0.001)\<close> in edit mode.
\<close>

definition extrude_cube :: "string option \<Rightarrow> real \<Rightarrow> real \<Rightarrow> nat \<Rightarrow> obj" where
  "extrude_cube name aspect depth mat =
     (primitive Cube 2 (0, 0, 0) (1, 1, 1))
       \<lparr>obj_scale := (aspect, 1, depth),
        obj_name := name,
        obj_materials := [mat],
        obj_uv_unwrap := Some (''ANGLE_BASED'', 1 / 1000)\<rparr>"

text \<open>
  One round of the Voxel loop, \<open>for i in range(layers)\<close> with \<open>layers = 8\<close>: a plane at
  \<open>y_pos = (i / layers - 0.5) * depth\<close> named \<open>SpriteLayer_i\<close>, with a new material
  \<open>SpriteMaterial_i\<close> on the image \<open>img\<close>. The three scripts differ in the links they make:
  \<open>lnks\<close> is that list.
\<close>

definition layers :: nat where
  "layers = 8"

definition voxel_material :: "(string \<times> string) list \<Rightarrow> image \<Rightarrow> nat \<Rightarrow> material" where
  "voxel_material lnks img i =
     (node_material (''SpriteMaterial_'' @ str_int (int i)))
       \<lparr>tex_image := Some (img_id img), links := lnks, blend_method := ''BLEND''\<rparr>"

definition voxel_plane :: "real \<Rightarrow> real \<Rightarrow> nat \<Rightarrow> nat \<Rightarrow> obj" where
  "voxel_plane aspect depth i mat =
     (let y_pos = (real i / real layers - 1 / 2) * depth
      in (primitive Plane 2 (0, y_pos, 0) (aspect, 1, 1))
           \<lparr>obj_name := Some (''SpriteLayer_'' @ str_int (int i)),
            obj_materials := [mat]\<rparr>)"

definition voxel_layer ::
  "(string \<times> string) list \<Rightarrow> real \<Rightarrow> real \<Rightarrow> image \<Rightarrow> nat \<Rightarrow> world \<Rightarrow> world" where
  "voxel_layer lnks aspect depth img i w =
     (case materials_new (voxel_material lnks img i) w of
        (mat, w1) \<Rightarrow> add_object (voxel_plane aspect depth i mat) w1)"

definition voxel_layers ::
  "(string \<times> string) list \<Rightarrow> real \<Rightarrow> real \<Rightarrow> image \<Rightarrow> world \<Rightarrow> world" where
  "voxel_layers lnks aspect depth img w =
     fold (voxel_layer lnks aspect depth img) [0..<layers] w"

section \<open>blender-sprite-to-3d.py\<close>

text \<open>
  The Extrude branch of \<open>create_3d_from_sprite\<close> loads the image a second time (outside any
  \<open>try\<close>) and makes a texture data block \<open>SpriteTexture\<close> for it, which nothing uses; the
  material's texture node holds the second image. The cube keeps Blender's name. The cube is
  added and scaled before the second load: were that load to raise, the scene would hold the
  cube without material and unwrap.
\<close>

definition sprite_extrude ::
  "host \<Rightarrow> string \<Rightarrow> real \<Rightarrow> real \<Rightarrow> world \<Rightarrow> (py_exception + unit) \<times> world" where
  "sprite_extrude h image_path scale_x depth w =
     (case images_load h image_path w of
        (Inl e, w1) \<Rightarrow>
          (Inl e, add_object ((primitive Cube 2 (0, 0, 0) (1, 1, 1))\<lparr>obj_scale := (scale_x, 1, depth)\<rparr>) w1)
      | (Inr img, w1) \<Rightarrow>
          (let w2 = w1\<lparr>textures := textures w1 @
                    [\<lparr>tex_name = ''SpriteTexture'', tex_type = ''IMAGE'', tex_img = Some (img_id img)\<rparr>]\<rparr>
           in case materials_new (extrude_material img) w2 of
                (mat, w3) \<Rightarrow> (Inr (), add_object (extrude_cube None scale_x depth mat) w3)))"

definition success_mark :: string where
  "success_mark = [char_of (0xE2 :: nat), char_of (0x9C :: nat), char_of (0x85 :: nat)]"

definition create_3d_from_sprite ::
  "host \<Rightarrow> string \<Rightarrow> string \<Rightarrow> real \<Rightarrow> string \<Rightarrow> world \<Rightarrow> (py_exception + bool) \<times> world" where
  "create_3d_from_sprite h image_path output_path depth method w =
     (let w1 = py_print (''Loading sprite: '' @ image_path) w in
      if \<not> path_exists h w1 image_path
      then (Inr False, py_print (''Error: Image not found: '' @ image_path) w1)
      else
        case images_load h image_path w1 of
          (Inl e, w2) \<Rightarrow> (Inr False, py_print (''Error loading image: '' @ str_exc h e) w2)
        | (Inr img, w2) \<Rightarrow>
            (case img_size img of (width, height) \<Rightarrow>
             (case truediv width height of
               Inl e \<Rightarrow> (Inl e, w2)
             | Inr aspect \<Rightarrow>
                 (let scale_x = aspect;
                      w3 = py_print (''Image size: '' @ str_int width @ ''x'' @ str_int height
                                     @ '', aspect: '' @ fmt_2f h aspect) w2
                  in case (if method = ''extrude'' then sprite_extrude h image_path scale_x depth w3
                           else if method = ''voxel''
                           then (Inr (), voxel_layers [(''Color'', ''Base Color''), (''Alpha'', ''Alpha'')]
                                           scale_x depth img w3)
                           else (Inr (), w3)) of
                       (Inl e, w4) \<Rightarrow> (Inl e, w4)
                     | (Inr u, w4) \<Rightarrow>
                         export_and_report h output_path
                           (success_mark @ '' Successfully exported: '' @ output_path) w4))))"

section \<open>blender-quick-convert.py\<close>

text \<open>
  \<open>convert_sprite_to_3d\<close> clears the scene itself. Its cube is named \<open>Sprite3D\<close>; its Voxel
  loop links the colour only. Before the export it calls
  \<open>os.makedirs(os.path.dirname(output_path), exist_ok=True)\<close> on whatever \<open>dirname\<close> returns.
\<close>

definition quick_extrude :: "string option \<Rightarrow> real \<Rightarrow> real \<Rightarrow> image \<Rightarrow> world \<Rightarrow> world" where
  "quick_extrude name aspect depth img w =
     (case materials_new (extrude_material img) w of
        (mat, w1) \<Rightarrow> add_object (extrude_cube name aspect depth mat) w1)"

definition convert_sprite_to_3d ::
  "host \<Rightarrow> string \<Rightarrow> string \<Rightarrow> real \<Rightarrow> string \<Rightarrow> world \<Rightarrow> (py_exception + bool) \<times> world" where
  "convert_sprite_to_3d h sprite_path output_path depth method w =
     (let w1 = clear_scene w in
      if \<not> path_exists h w1 sprite_path
      then (Inr False, py_print (''ERROR: File not found: '' @ sprite_path) w1)
      else
        case images_load h sprite_path w1 of
          (Inl e, w2) \<Rightarrow> (Inr False, py_print (''ERROR: Failed to load image: '' @ str_exc h e) w2)
        | (Inr img, w2) \<Rightarrow>
            (case img_size img of (width, height) \<Rightarrow>
             (case truediv width height of
                Inl e \<Rightarrow> (Inl e, w2)
              | Inr aspect \<Rightarrow>
                  (let w3 = py_print (''Loaded sprite: '' @ str_int width @ ''x'' @ str_int height
                                      @ '' (aspect: '' @ fmt_2f h aspect @ '')'') w2;
                       w4 = (if method = ''extrude''
                             then py_print ''Created extruded model''
                                    (quick_extrude (Some ''Sprite3D'') aspect depth img w3)
                             else if method = ''voxel''
                             then py_print (''Created voxel model with '' @ str_int (int layers) @ '' layers'')
                                    (voxel_layers [(''Color'', ''Base Color'')] aspect depth img w3)
                             else w3)
                   in case os_makedirs h (os_path_dirname h output_path) w4 of
                        (Inl e, w5) \<Rightarrow> (Inl e, w5)
                      | (Inr u, w5) \<Rightarrow>
                          export_and_report h output_path
                            (success_mark @ '' Success! Exported to: '' @ output_path) w5))))"

section \<open>blender-addon-sprite-converter.py\<close>

text \<open>
  The operator \<open>ConvertSpriteTo3D\<close> has three properties. \<open>method\<close> is an enumeration of two
  items. \<open>depth\<close> is declared with \<open>default=0.5, min=0.1, max=2.0\<close>; Blender keeps a float
  property within its hard limits: a value given below \<open>min\<close> is stored as \<open>min\<close>, one above
  \<open>max\<close> as \<open>max\<close>. \<open>execute\<close> does not clear the scene and does not export. Its
  Extrude branch is the one of the quick-convert script without the name (\<open>quick_extrude\<close>),
  its Voxel loop links the colour only.
\<close>

datatype addon_method = EXTRUDE | VOXEL

datatype operator_result = FINISHED | CANCELLED

record float_property =
  fp_default :: real
  fp_min :: real
  fp_max :: real

definition depth_property :: float_property where
  "depth_property = \<lparr>fp_default = 1 / 2, fp_min = 1 / 10, fp_max = 2\<rparr>"

definition float_property_set :: "float_property \<Rightarrow> real \<Rightarrow> real" where
  "float_property_set p v = max (fp_min p) (min (fp_max p) v)"

record operator =
  op_filepath :: string
  op_depth :: real
  op_method :: addon_method

definition ConvertSpriteTo3D :: "string \<Rightarrow> real option \<Rightarrow> addon_method option \<Rightarrow> operator" where
  "ConvertSpriteTo3D filepath depth method =
     \<lparr>op_filepath = filepath,
      op_depth = (case depth of None \<Rightarrow> fp_default depth_property
                  | Some v \<Rightarrow> float_property_set depth_property v),
      op_method = (case method of None \<Rightarrow> EXTRUDE | Some m \<Rightarrow> m)\<rparr>"

definition report :: "string \<Rightarrow> string \<Rightarrow> world \<Rightarrow> world" where
  "report kind msg w = w\<lparr>reports := reports w @ [(kind, msg)]\<rparr>"

definition execute :: "host \<Rightarrow> operator \<Rightarrow> world \<Rightarrow> (py_exception + operator_result) \<times> world" where
  "execute h self w =
     (if \<not> path_exists h w (op_filepath self)
      then (Inr CANCELLED, report ''ERROR'' (''File not found: '' @ op_filepath self) w)
      else
        case images_load h (op_filepath self) w of
          (Inl e, w1) \<Rightarrow>
            (Inr CANCELLED, report ''ERROR'' (''Failed to load image: '' @ op_filepath self) w1)
        | (Inr img, w1) \<Rightarrow>
            (case img_size img of (width, height) \<Rightarrow>
             (case truediv width height of
                Inl e \<Rightarrow> (Inl e, w1)
              | Inr aspect \<Rightarrow>
                  (let w2 = (case op_method self of
                               EXTRUDE \<Rightarrow> quick_extrude None aspect (op_depth self) img w1
                             | VOXEL \<Rightarrow>
                                 voxel_layers [(''Color'', ''Base Color'')] aspect (op_depth self) img w1)
                   in (Inr FINISHED,
                       report ''INFO''
                         (''Created 3D model from '' @ os_path_basename h (op_filepath self)) w2)))))"

section \<open>blender-character-to-3d.py\<close>

definition load_sprite_image :: "host \<Rightarrow> string \<Rightarrow> world \<Rightarrow> (py_exception + image option) \<times> world" where
  "load_sprite_image h image_path w =
     (if \<not> path_exists h w image_path
      then (Inr None, py_print (''Error: Image not found: '' @ image_path) w)
      else case images_load h image_path w of
             (Inl e, w1) \<Rightarrow> (Inl e, w1)
           | (Inr img, w1) \<Rightarrow> (Inr (Some img), w1))"

text \<open>
  A material whose texture node on \<open>img\<close> gives the base colour and the alpha, blend mode
  BLEND: the material of the billboard planes.
\<close>

definition textured_material :: "string \<Rightarrow> image \<Rightarrow> material" where
  "textured_material name img =
     (node_material name)
       \<lparr>tex_image := Some (img_id img),
        links := [(''Color'', ''Base Color''), (''Alpha'', ''Alpha'')],
        blend_method := ''BLEND''\<rparr>"

definition billboard_plane :: "string \<Rightarrow> vec3 \<Rightarrow> vec3 \<Rightarrow> nat \<Rightarrow> obj" where
  "billboard_plane name loc sc mat =
     (primitive Plane 2 loc (1, 1, 1))
       \<lparr>obj_scale := sc, obj_name := Some name, obj_materials := [mat]\<rparr>"

definition add_billboard :: "real \<Rightarrow> image \<Rightarrow> world \<Rightarrow> world" where
  "add_billboard aspect img w =
     (case materials_new (textured_material ''CharacterMaterial'' img) w of
        (mat, w1) \<Rightarrow> add_object (billboard_plane ''CharacterBillboard'' (0, 0, 0) (aspect, 1, 1) mat) w1)"

definition shadow_material :: material where
  "shadow_material =
     (node_material ''CharacterShadowMaterial'')
       \<lparr>base_color_default := Some (0, 0, 0, 1),
        alpha_default := Some (3 / 10),
        blend_method := ''BLEND''\<rparr>"

definition add_shadow :: "real \<Rightarrow> real \<Rightarrow> world \<Rightarrow> world" where
  "add_shadow aspect depth w =
     (case materials_new shadow_material w of
        (shadow_mat, w1) \<Rightarrow>
          add_object (billboard_plane ''CharacterShadow'' (0, - depth, 0)
                        (aspect * (105 / 100), 105 / 100, 1) shadow_mat) w1)"

definition body_material :: "image \<Rightarrow> material" where
  "body_material img =
     (node_material ''CharacterMaterial'')
       \<lparr>tex_image := Some (img_id img),
        links := [(''Color'', ''Base Color''), (''Color'', ''Emission Color''), (''Alpha'', ''Alpha'')],
        emission_strength := Some (1 / 2),
        blend_method := ''BLEND''\<rparr>"

definition add_capsule :: "real \<Rightarrow> image \<Rightarrow> world \<Rightarrow> world" where
  "add_capsule aspect img w =
     (case materials_new (body_material img) w of
        (mat, w1) \<Rightarrow>
          (let w2 = add_object
                      ((primitive UVSphere (1 / 2) (0, 0, 1 / 2) (aspect * (6 / 10), 6 / 10, 1))
                         \<lparr>obj_name := Some ''CharacterBody'', obj_materials := [mat]\<rparr>) w1
           in case materials_new (textured_material ''CharacterSpriteMaterial'' img) w2 of
                (billboard_mat, w3) \<Rightarrow>
                  add_object (billboard_plane ''CharacterSprite'' (0, 1 / 10, 1 / 2) (aspect, 1, 1)
                                billboard_mat) w3))"

text \<open>The success line of this script starts with seven bytes (a check mark, re-encoded).\<close>

definition success_mark_character :: string where
  "success_mark_character =
     [char_of (0xC3 :: nat), char_of (0xA2 :: nat), char_of (0xC5 :: nat), char_of (0x93 :: nat),
      char_of (0xE2 :: nat), char_of (0x80 :: nat), char_of (0xA6 :: nat)]"

definition create_billboard_character ::
  "host \<Rightarrow> string \<Rightarrow> string \<Rightarrow> string \<Rightarrow> real \<Rightarrow> world \<Rightarrow> (py_exception + bool) \<times> world" where
  "create_billboard_character h image_path output_path method depth w =
     (case load_sprite_image h image_path (py_print (''Loading character sprite: '' @ image_path) w) of
        (Inl e, w1) \<Rightarrow> (Inl e, w1)
      | (Inr None, w1) \<Rightarrow> (Inr False, w1)
      | (Inr (Some img), w1) \<Rightarrow>
          (case img_size img of (width, height) \<Rightarrow>
           (case truediv width height of
              Inl e \<Rightarrow> (Inl e, w1)
            | Inr aspect \<Rightarrow>
                (let w2 = py_print (''Character sprite: '' @ str_int width @ ''x'' @ str_int height
                                    @ '' (aspect: '' @ fmt_2f h aspect @ '')'') w1;
                     w3 = (if method = ''billboard''
                           then py_print ''Created billboard character'' (add_billboard aspect img w2)
                           else if method = ''billboard-depth''
                           then py_print (''Created billboard with depth shadow (depth: ''
                                          @ str_float h depth @ '')'')
                                  (add_shadow aspect depth (add_billboard aspect img w2))
                           else if method = ''capsule''
                           then py_print ''Created capsule character with billboard sprite''
                                  (add_capsule aspect img w2)
                           else w2)
                 in export_and_report h output_path
                      (success_mark_character @ '' Successfully exported: '' @ output_path) w3))))"

section \<open>The command-line entry points\<close>

text \<open>
  How a run ends: \<open>sys.exit(n)\<close> was called, or the script ran to its end without calling
  it, or an exception was raised that nothing caught.
\<close>

datatype outcome = Exit int | Finished | Uncaught py_exception

text \<open>\<open>xs.index(x)\<close>: the position of the first \<open>x\<close>; \<open>None\<close> where Python raises ValueError.\<close>

fun index_of :: "'a \<Rightarrow> 'a list \<Rightarrow> nat option" where
  "index_of x [] = None"
| "index_of x (y # ys) = (if x = y then Some 0 else map_option Suc (index_of x ys))"

text \<open>\<open>argv[argv.index("--") + 1:] if "--" in argv else []\<close>\<close>

definition script_args :: "string list \<Rightarrow> string list" where
  "script_args sys_argv =
     (case index_of ''--'' sys_argv of None \<Rightarrow> [] | Some k \<Rightarrow> drop (k + 1) sys_argv)"

text \<open>
  \<open>os.makedirs(os.path.dirname(output_path) if os.path.dirname(output_path) else '.',
  exist_ok=True)\<close>, the line both \<open>main\<close> functions run before the conversion.
\<close>

definition ensure_output_dir :: "host \<Rightarrow> string \<Rightarrow> world \<Rightarrow> (py_exception + unit) \<times> world" where
  "ensure_output_dir h output_path w =
     os_makedirs h (if os_path_dirname h output_path \<noteq> [] then os_path_dirname h output_path else ''.'') w"

definition exit_with :: "(py_exception + bool) \<times> world \<Rightarrow> outcome \<times> world" where
  "exit_with r =
     (case r of
        (Inl e, w) \<Rightarrow> (Uncaught e, w)
      | (Inr success, w) \<Rightarrow> (Exit (if success then 0 else 1), w))"

definition sprite_to_3d_usage :: "string list" where
  "sprite_to_3d_usage =
     [''Usage: blender --background --python blender-sprite-to-3d.py -- <sprite_path> <output_path> [depth] [method]'',
      ''Example: blender --background --python blender-sprite-to-3d.py -- sprite.png output.glb 0.5 extrude'']"

definition sprite_to_3d_main :: "host \<Rightarrow> string list \<Rightarrow> world \<Rightarrow> outcome \<times> world" where
  "sprite_to_3d_main h sys_argv w =
     (let argv = script_args sys_argv in
      if length argv < 2 then (Finished, fold py_print sprite_to_3d_usage w)
      else
        (let image_path = argv ! 0; output_path = argv ! 1 in
         case (if length argv > 2 then py_float h (argv ! 2) else Inr (1 / 2)) of
           Inl e \<Rightarrow> (Uncaught e, w)
         | Inr depth \<Rightarrow>
             (let method = (if length argv > 3 then argv ! 3 else ''extrude'') in
              case ensure_output_dir h output_path w of
                (Inl e, w1) \<Rightarrow> (Uncaught e, w1)
              | (Inr u, w1) \<Rightarrow>
                  exit_with (create_3d_from_sprite h image_path output_path depth method w1))))"

definition character_to_3d_usage :: "string list" where
  "character_to_3d_usage =
     [''Usage: blender --background --python blender-character-to-3d.py -- <sprite_path> <output_path> [method] [depth]'',
      ''Methods: billboard, billboard-depth, capsule'',
      ''Example: blender --background --python blender-character-to-3d.py -- sprite.png output.glb billboard-depth 0.1'']"

definition character_to_3d_main :: "host \<Rightarrow> string list \<Rightarrow> world \<Rightarrow> outcome \<times> world" where
  "character_to_3d_main h sys_argv w =
     (let argv = script_args sys_argv in
      if length argv < 2 then (Finished, fold py_print character_to_3d_usage w)
      else
        (let image_path = argv ! 0; output_path = argv ! 1;
             method = (if length argv > 2 then argv ! 2 else ''billboard-depth'') in
         case (if length argv > 3 then py_float h (argv ! 3) else Inr (1 / 10)) of
           Inl e \<Rightarrow> (Uncaught e, w)
         | Inr depth \<Rightarrow>
             (case ensure_output_dir h output_path w of
                (Inl e, w1) \<Rightarrow> (Uncaught e, w1)
              | (Inr u, w1) \<Rightarrow>
                  exit_with (create_billboard_character h image_path output_path method depth w1))))"

text \<open>
  Both scripts delete every object of the scene when they are loaded, before \<open>main\<close> runs:
  a run of the script is \<open>main\<close> on a world whose scene is empty (\<open>clear_scene w\<close>).
\<close>

section \<open>blender-fbx-to-glb.py\<close>

text \<open>
  The script has no function: it runs from top to bottom. It slices \<open>sys.argv\<close> after
  \<open>"--"\<close> without testing that \<open>"--"\<close> is there, exits with code 1 where something fails,
  and runs to its end on success. It empties the scene, \<open>bpy.data.materials\<close> and
  \<open>bpy.data.meshes\<close> (the meshes belong to the objects of the model) before the import.
  What it writes to the standard error is not modelled.
\<close>

definition fbx_usage :: string where
  "fbx_usage = ''Usage: blender --background --python blender-fbx-to-glb.py -- input.fbx output.glb''"

definition rule_line :: string where
  "rule_line = replicate 50 CHR ''=''"

definition check_mark :: string where
  "check_mark = [char_of (0xE2 :: nat), char_of (0x9C :: nat), char_of (0x93 :: nat)]"

definition fbx_export_params :: "string \<Rightarrow> gltf_params" where
  "fbx_export_params output_path =
     \<lparr>gp_filepath = output_path, gp_export_format = ''GLB'', gp_export_materials = ''EXPORT'',
      gp_export_normals = None, gp_export_texcoords = None, gp_export_colors = None\<rparr>"

definition import_scene_fbx :: "host \<Rightarrow> string \<Rightarrow> world \<Rightarrow> (py_exception + unit) \<times> world" where
  "import_scene_fbx h input_path w =
     (case fbx_import_result h input_path of
        Inl e \<Rightarrow> (Inl e, w)
      | Inr obs \<Rightarrow> (Inr (), w\<lparr>objects := objects w @ obs\<rparr>))"

definition fbx_output_dir :: "host \<Rightarrow> string \<Rightarrow> world \<Rightarrow> (py_exception + unit) \<times> world" where
  "fbx_output_dir h output_path w =
     (let output_dir = os_path_dirname h output_path in
      if output_dir \<noteq> [] \<and> \<not> path_exists h w output_dir
      then (case os_makedirs h output_dir w of
              (Inl e, w1) \<Rightarrow> (Inl e, w1)
            | (Inr u, w1) \<Rightarrow> (Inr (), py_print (''Created output directory: '' @ output_dir) w1))
      else (Inr (), w))"

definition fbx_export :: "host \<Rightarrow> string \<Rightarrow> world \<Rightarrow> outcome \<times> world" where
  "fbx_export h output_path w =
     (case export_scene_gltf h (fbx_export_params output_path) w of
        (Inl e, w1) \<Rightarrow> (Exit 1, py_print (''ERROR: Failed to export GLB: '' @ str_exc h e) w1)
      | (Inr u, w1) \<Rightarrow>
          (let w2 = py_print (check_mark @ '' Exported GLB: '' @ output_path) w1;
               w3 = (if path_exists h w2 output_path
                     then py_print (''  File size: ''
                                    @ fmt_2f h (real_of_int (os_path_getsize h output_path) / 1024)
                                    @ '' KB'') w2
                     else w2)
           in (Finished,
               fold py_print
                 [CHR 0x0A # rule_line, check_mark @ '' Conversion complete!'', rule_line @ [CHR 0x0A]]
                 w3)))"

definition fbx_to_glb_script :: "host \<Rightarrow> string list \<Rightarrow> world \<Rightarrow> outcome \<times> world" where
  "fbx_to_glb_script h sys_argv w =
     (case index_of ''--'' sys_argv of
        None \<Rightarrow> (Uncaught ValueError, w)
      | Some k \<Rightarrow>
          (let argv = drop (k + 1) sys_argv in
           if length argv < 2 then (Exit 1, py_print fbx_usage w)
           else
             (let input_path = argv ! 0; output_path = argv ! 1;
                  w1 = fold py_print
                         [CHR 0x0A # rule_line, ''FBX to GLB Converter'', rule_line,
                          ''Input:  '' @ input_path, ''Output: '' @ output_path] w
              in if \<not> path_exists h w1 input_path
                 then (Exit 1, py_print (''ERROR: Input file not found: '' @ input_path) w1)
                 else
                   (let w2 = py_print ''Cleared scene'' ((clear_scene w1)\<lparr>materials := []\<rparr>) in
                    case import_scene_fbx h input_path w2 of
                      (Inl e, w3) \<Rightarrow>
                        (Exit 1, py_print (''ERROR: Failed to import FBX: '' @ str_exc h e) w3)
                    | (Inr u, w3) \<Rightarrow>
                        (case fbx_output_dir h output_path (py_print (check_mark @ '' Imported FBX'') w3) of
                           (Inl e, w4) \<Rightarrow> (Uncaught e, w4)
                         | (Inr u', w4) \<Rightarrow> fbx_export h output_path w4)))))"

section \<open>A concrete host\<close>

text \<open>
  A host on which the functions can be run: POSIX paths, one sprite \<open>sprite.png\<close> of
  \<open>800 \<times> 400\<close> pixels and one model \<open>model.fbx\<close>, directories that can always be made, an
  exporter that accepts every call, and \<open>float\<close> on the four literals used below.
\<close>

definition posix_dirname :: "string \<Rightarrow> string" where
  "posix_dirname p =
     (let i = (case index_of CHR ''/'' (rev p) of None \<Rightarrow> 0 | Some k \<Rightarrow> length p - k);
          head = take i p
      in if head \<noteq> [] \<and> head \<noteq> replicate (length head) CHR ''/''
         then rev (dropWhile (\<lambda>c. c = CHR ''/'') (rev head))
         else head)"

definition posix_basename :: "string \<Rightarrow> string" where
  "posix_basename p =
     (let i = (case index_of CHR ''/'' (rev p) of None \<Rightarrow> 0 | Some k \<Rightarrow> length p - k)
      in drop i p)"

definition test_host :: host where
  "test_host =
     \<lparr>os_path_exists = (\<lambda>p. p = ''sprite.png'' \<or> p = ''model.fbx''),
      os_path_dirname = posix_dirname,
      os_path_basename = posix_basename,
      makedirs_result = (\<lambda>p. None),
      images_load_result = (\<lambda>p. Inr (800, 400)),
      gltf_result = (\<lambda>p obs. None),
      fbx_import_result = (\<lambda>p. Inr []),
      os_path_getsize = (\<lambda>p. 2048),
      float_result = (\<lambda>s. if s = ''0.1'' then Some (1 / 10)
                          else if s = ''0.4'' then Some (2 / 5)
                          else if s = ''0.5'' then Some (1 / 2)
                          else if s = ''5.0'' then Some 5
                          else None),
      fmt_2f = (\<lambda>x. ''#.##''),
      str_float = (\<lambda>x. ''#.#''),
      str_exc = (\<lambda>e. ''error'')\<rparr>"

text \<open>
  Two hosts on which something fails: one whose image loader and FBX importer raise, one
  whose exporter raises (an exception other than TypeError).
\<close>

definition broken_loader_host :: host where
  "broken_loader_host =
     test_host\<lparr>images_load_result := (\<lambda>p. Inl RuntimeError),
               fbx_import_result := (\<lambda>p. Inl RuntimeError)\<rparr>"

definition broken_exporter_host :: host where
  "broken_exporter_host = test_host\<lparr>gltf_result := (\<lambda>p obs. Some RuntimeError)\<rparr>"

definition empty_world :: world where
  "empty_world =
     \<lparr>images = [], textures = [], materials = [], objects = [], files = [], dirs = [],
      stdout = [], reports = []\<rparr>"

section \<open>Observing a run\<close>

text \<open>
  What a run added to the stores of a world \<open>w\<close>, read off the world \<open>w'\<close> it ended in; the
  position of an object along the depth axis (\<open>y\<close>).
\<close>

definition new_objects :: "world \<Rightarrow> world \<Rightarrow> obj list" where
  "new_objects w w' = drop (length (objects w)) (objects w')"

definition new_materials :: "world \<Rightarrow> world \<Rightarrow> material list" where
  "new_materials w w' = drop (length (materials w)) (materials w')"

definition new_images :: "world \<Rightarrow> world \<Rightarrow> image list" where
  "new_images w w' = drop (length (images w)) (images w')"

definition y_pos :: "obj \<Rightarrow> real" where
  "y_pos ob = fst (snd (obj_location ob))"

text \<open>
  The specification's reading of the Voxel layout: \<open>n\<close> values evenly spaced across the
  closed interval from \<open>lo\<close> to \<open>hi\<close>, the first at \<open>lo\<close> and the last at \<open>hi\<close>.
\<close>

definition evenly_spaced_closed :: "real \<Rightarrow> real \<Rightarrow> nat \<Rightarrow> real list" where
  "evenly_spaced_closed lo hi n = map (\<lambda>k. lo + real k * ((hi - lo) / real (n - 1))) [0..<n]"

section \<open>Basic facts\<close>

lemma py_print_fields [simp]:
  "objects (py_print s w) = objects w"
  "materials (py_print s w) = materials w"
  "images (py_print s w) = images w"
  "textures (py_print s w) = textures w"
  "files (py_print s w) = files w"
  "dirs (py_print s w) = dirs w"
  "reports (py_print s w) = reports w"
  "stdout (py_print s w) = stdout w @ [s]"
  by (simp_all add: py_print_def)

lemma path_exists_py_print [simp]: "path_exists h (py_print s w) p = path_exists h w p"
  by (simp add: path_exists_def py_print_def)

lemma path_exists_clear_scene [simp]: "path_exists h (clear_scene w) p = path_exists h w p"
  by (simp add: path_exists_def clear_scene_def)

lemma voxel_fold:
  "fold (voxel_layer lnks aspect depth img) [0..<n] w =
     w\<lparr>materials := materials w @ map (voxel_material lnks img) [0..<n],
       objects := objects w @ map (\<lambda>i. voxel_plane aspect depth i (length (materials w) + i)) [0..<n]\<rparr>"
proof (induction n)
  case 0
  show ?case by simp
next
  case (Suc n)
  have "fold (voxel_layer lnks aspect depth img) [0..<Suc n] w =
        voxel_layer lnks aspect depth img n (fold (voxel_layer lnks aspect depth img) [0..<n] w)"
    by simp
  also have "\<dots> = voxel_layer lnks aspect depth img n
     (w\<lparr>materials := materials w @ map (voxel_material lnks img) [0..<n],
       objects := objects w @ map (\<lambda>i. voxel_plane aspect depth i (length (materials w) + i)) [0..<n]\<rparr>)"
    by (simp only: Suc)
  also have "\<dots> = w\<lparr>materials := materials w @ map (voxel_material lnks img) [0..<Suc n],
       objects := objects w @ map (\<lambda>i. voxel_plane aspect depth i (length (materials w) + i)) [0..<Suc n]\<rparr>"
    by (simp add: voxel_layer_def materials_new_def add_object_def)
  finally show ?case .
qed

lemma voxel_layers_eq:
  "voxel_layers lnks aspect depth img w =
     w\<lparr>materials := materials w @ map (voxel_material lnks img) [0..<layers],
       objects := objects w @ map (\<lambda>i. voxel_plane aspect depth i (length (materials w) + i)) [0..<layers]\<rparr>"
  by (simp add: voxel_layers_def voxel_fold)

text \<open>The export changes the files and the printed lines, and nothing else.\<close>

lemma export_scene_gltf_keeps:
  "objects (snd (export_scene_gltf h p w)) = objects w"
  "materials (snd (export_scene_gltf h p w)) = materials w"
  "images (snd (export_scene_gltf h p w)) = images w"
  "textures (snd (export_scene_gltf h p w)) = textures w"
  by (simp_all add: export_scene_gltf_def split: option.splits)

lemma export_glb_keeps:
  "objects (snd (export_glb h out w)) = objects w"
  "materials (snd (export_glb h out w)) = materials w"
  "images (snd (export_glb h out w)) = images w"
  "textures (snd (export_glb h out w)) = textures w"
  by (auto simp add: export_glb_def export_scene_gltf_def
           split: option.splits prod.splits sum.splits py_exception.splits)

lemma export_and_report_keeps:
  "objects (snd (export_and_report h out msg w)) = objects w"
  "materials (snd (export_and_report h out msg w)) = materials w"
  "images (snd (export_and_report h out msg w)) = images w"
  "textures (snd (export_and_report h out msg w)) = textures w"
proof -
  define w0 where "w0 = py_print (''Exporting to: '' @ out) w"
  obtain r w1 where e: "export_glb h out w0 = (r, w1)"
    by (cases "export_glb h out w0")
  have k: "objects w1 = objects w" "materials w1 = materials w" "images w1 = images w"
      "textures w1 = textures w"
    using export_glb_keeps [of h out w0] unfolding e by (simp_all add: w0_def)
  have u: "export_and_report h out msg w =
             (case r of Inl x \<Rightarrow> (Inl x, w1) | Inr u \<Rightarrow> (Inr True, py_print msg w1))"
    unfolding export_and_report_def w0_def [symmetric] e by (simp split: sum.splits)
  show "objects (snd (export_and_report h out msg w)) = objects w"
    "materials (snd (export_and_report h out msg w)) = materials w"
    "images (snd (export_and_report h out msg w)) = images w"
    "textures (snd (export_and_report h out msg w)) = textures w"
    unfolding u by (simp_all add: k split: sum.splits)
qed

lemma export_and_report_accepted:
  assumes "gltf_result h ((export_params out)\<lparr>gp_export_colors := Some True\<rparr>) (objects w) = None"
  shows "export_and_report h out msg w =
           (Inr True, w\<lparr>files := files w @ [(out, objects w)],
                         stdout := stdout w @ [''Exporting to: '' @ out, msg]\<rparr>)"
  using assms
  by (simp add: export_and_report_def export_glb_def export_scene_gltf_def py_print_def
        export_params_def)

lemma export_and_report_not_False: "fst (export_and_report h out msg w) \<noteq> Inr False"
  by (simp add: export_and_report_def split: prod.splits sum.splits)

text \<open>What each conversion function does once the sprite is found and loaded.\<close>

lemma create_3d_from_sprite_loaded:
  assumes "path_exists h w p" and "images_load_result h p = Inr (wd, ht)" and "ht \<noteq> 0"
  shows "create_3d_from_sprite h p out d m w =
    (let img = \<lparr>img_id = length (images w), img_filepath = p, img_size = (wd, ht)\<rparr>;
         aspect = real_of_int wd / real_of_int ht;
         w2 = (py_print (''Loading sprite: '' @ p) w)\<lparr>images := images w @ [img]\<rparr>;
         w3 = py_print (''Image size: '' @ str_int wd @ ''x'' @ str_int ht @ '', aspect: ''
                        @ fmt_2f h aspect) w2
     in case (if m = ''extrude'' then sprite_extrude h p aspect d w3
              else if m = ''voxel''
              then (Inr (), voxel_layers [(''Color'', ''Base Color''), (''Alpha'', ''Alpha'')] aspect d img w3)
              else (Inr (), w3)) of
          (Inl e, w4) \<Rightarrow> (Inl e, w4)
        | (Inr u, w4) \<Rightarrow>
            export_and_report h out (success_mark @ '' Successfully exported: '' @ out) w4)"
  using assms
  by (simp add: create_3d_from_sprite_def images_load_def truediv_def Let_def)

lemma create_3d_voxel_world:
  fixes d :: real and out :: string
  assumes "path_exists h w p" and "images_load_result h p = Inr (wd, ht)" and "ht \<noteq> 0"
  defines "w' \<equiv> snd (create_3d_from_sprite h p out d ''voxel'' w)"
  shows "objects w' = objects w @
           map (\<lambda>i. voxel_plane (real_of_int wd / real_of_int ht) d i (length (materials w) + i)) [0..<layers]"
    and "materials w' = materials w @
           map (voxel_material [(''Color'', ''Base Color''), (''Alpha'', ''Alpha'')]
                  \<lparr>img_id = length (images w), img_filepath = p, img_size = (wd, ht)\<rparr>) [0..<layers]"
    and "images w' = images w @ [\<lparr>img_id = length (images w), img_filepath = p, img_size = (wd, ht)\<rparr>]"
  unfolding w'_def
  by (simp_all add: create_3d_from_sprite_loaded [OF assms(1-3)] Let_def export_and_report_keeps
        voxel_layers_eq)

lemma execute_loaded:
  assumes "path_exists h w (op_filepath self)"
    and "images_load_result h (op_filepath self) = Inr (wd, ht)" and "ht \<noteq> 0"
  shows "execute h self w =
    (let img = \<lparr>img_id = length (images w), img_filepath = op_filepath self, img_size = (wd, ht)\<rparr>;
         aspect = real_of_int wd / real_of_int ht;
         w1 = w\<lparr>images := images w @ [img]\<rparr>;
         w2 = (case op_method self of
                 EXTRUDE \<Rightarrow> quick_extrude None aspect (op_depth self) img w1
               | VOXEL \<Rightarrow> voxel_layers [(''Color'', ''Base Color'')] aspect (op_depth self) img w1)
     in (Inr FINISHED,
         report ''INFO'' (''Created 3D model from '' @ os_path_basename h (op_filepath self)) w2))"
  using assms
  by (simp add: execute_def images_load_def truediv_def Let_def)

lemma report_fields [simp]:
  "objects (report k s w) = objects w"
  "materials (report k s w) = materials w"
  "images (report k s w) = images w"
  "textures (report k s w) = textures w"
  "files (report k s w) = files w"
  "dirs (report k s w) = dirs w"
  "stdout (report k s w) = stdout w"
  by (simp_all add: report_def)

lemma execute_voxel_world:
  fixes self :: operator
  assumes "path_exists h w p" and "images_load_result h p = Inr (wd, ht)" and "ht \<noteq> 0"
    and "op_filepath self = p" and "op_method self = VOXEL"
  defines "w' \<equiv> snd (execute h self w)"
  shows "objects w' = objects w @
           map (\<lambda>i. voxel_plane (real_of_int wd / real_of_int ht) (op_depth self) i
                       (length (materials w) + i)) [0..<layers]"
    and "materials w' = materials w @
           map (voxel_material [(''Color'', ''Base Color'')]
                  \<lparr>img_id = length (images w), img_filepath = p, img_size = (wd, ht)\<rparr>) [0..<layers]"
    and "images w' = images w @ [\<lparr>img_id = length (images w), img_filepath = p, img_size = (wd, ht)\<rparr>]"
  unfolding w'_def using assms(4,5)
  by (simp_all add: execute_loaded [of h w self, OF assms(1-3) [folded assms(4)]] Let_def voxel_layers_eq)

lemma upt_layers: "[0..<layers] = [0, 1, 2, 3, 4, 5, 6, 7]"
  by (simp add: layers_def upt_rec)

text \<open>The concrete host has the sprite, and loads it as an image of 800 by 400 pixels.\<close>

lemma test_host_sprite:
  "path_exists test_host empty_world ''sprite.png''"
  "images_load_result test_host ''sprite.png'' = Inr (800, 400)"
  "os_path_exists test_host ''sprite.png''"
  by (simp_all add: path_exists_def test_host_def)

lemma clear_scene_fields [simp]:
  "objects (clear_scene w) = []"
  "materials (clear_scene w) = materials w"
  "images (clear_scene w) = images w"
  "textures (clear_scene w) = textures w"
  "files (clear_scene w) = files w"
  "dirs (clear_scene w) = dirs w"
  "stdout (clear_scene w) = stdout w"
  by (simp_all add: clear_scene_def)

lemma os_makedirs_keeps:
  "objects (snd (os_makedirs h d w)) = objects w"
  "materials (snd (os_makedirs h d w)) = materials w"
  "images (snd (os_makedirs h d w)) = images w"
  "textures (snd (os_makedirs h d w)) = textures w"
  "files (snd (os_makedirs h d w)) = files w"
  "stdout (snd (os_makedirs h d w)) = stdout w"
  by (simp_all add: os_makedirs_def split: option.splits)

lemma makedirs_export_keeps:
  fixes h d w out msg
  defines "r \<equiv> (case os_makedirs h d w of
                   (Inl e, w5) \<Rightarrow> (Inl e, w5)
                 | (Inr u, w5) \<Rightarrow> export_and_report h out msg w5)"
  shows "objects (snd r) = objects w"
    and "materials (snd r) = materials w"
    and "images (snd r) = images w"
    and "textures (snd r) = textures w"
proof -
  obtain x w5 where m: "os_makedirs h d w = (x, w5)"
    by (cases "os_makedirs h d w")
  have k: "objects w5 = objects w" "materials w5 = materials w" "images w5 = images w"
      "textures w5 = textures w"
    using os_makedirs_keeps [of h d w] unfolding m by simp_all
  show "objects (snd r) = objects w" "materials (snd r) = materials w"
    "images (snd r) = images w" "textures (snd r) = textures w"
    unfolding r_def m by (simp_all add: k export_and_report_keeps split: sum.splits)
qed

lemma sprite_extrude_eq:
  assumes "images_load_result h p = Inr (wd, ht)"
  shows "sprite_extrude h p a d w =
    (let img = \<lparr>img_id = length (images w), img_filepath = p, img_size = (wd, ht)\<rparr>
     in (Inr (),
         w\<lparr>images := images w @ [img],
           textures := textures w @
             [\<lparr>tex_name = ''SpriteTexture'', tex_type = ''IMAGE'', tex_img = Some (length (images w))\<rparr>],
           materials := materials w @ [extrude_material img],
           objects := objects w @ [extrude_cube None a d (length (materials w))]\<rparr>))"
  using assms
  by (simp add: sprite_extrude_def images_load_def materials_new_def add_object_def Let_def)

lemma quick_extrude_eq:
  "quick_extrude name a d img w =
     w\<lparr>materials := materials w @ [extrude_material img],
       objects := objects w @ [extrude_cube name a d (length (materials w))]\<rparr>"
  by (simp add: quick_extrude_def materials_new_def add_object_def)

lemma create_3d_extrude_world:
  fixes d :: real and out :: string
  assumes "path_exists h w p" and "images_load_result h p = Inr (wd, ht)" and "ht \<noteq> 0"
  defines "w' \<equiv> snd (create_3d_from_sprite h p out d ''extrude'' w)"
  shows "objects w' = objects w @
           [extrude_cube None (real_of_int wd / real_of_int ht) d (length (materials w))]"
    and "materials w' = materials w @
           [extrude_material \<lparr>img_id = length (images w) + 1, img_filepath = p, img_size = (wd, ht)\<rparr>]"
    and "images w' = images w @
           [\<lparr>img_id = length (images w), img_filepath = p, img_size = (wd, ht)\<rparr>,
            \<lparr>img_id = length (images w) + 1, img_filepath = p, img_size = (wd, ht)\<rparr>]"
  unfolding w'_def
  by (simp_all add: create_3d_from_sprite_loaded [OF assms(1-3)] Let_def export_and_report_keeps
        sprite_extrude_eq [OF assms(2)])

lemma convert_sprite_to_3d_loaded:
  assumes "path_exists h w p" and "images_load_result h p = Inr (wd, ht)" and "ht \<noteq> 0"
  shows "convert_sprite_to_3d h p out d m w =
    (let img = \<lparr>img_id = length (images w), img_filepath = p, img_size = (wd, ht)\<rparr>;
         aspect = real_of_int wd / real_of_int ht;
         w2 = (clear_scene w)\<lparr>images := images w @ [img]\<rparr>;
         w3 = py_print (''Loaded sprite: '' @ str_int wd @ ''x'' @ str_int ht
                        @ '' (aspect: '' @ fmt_2f h aspect @ '')'') w2;
         w4 = (if m = ''extrude''
               then py_print ''Created extruded model''
                      (quick_extrude (Some ''Sprite3D'') aspect d img w3)
               else if m = ''voxel''
               then py_print (''Created voxel model with '' @ str_int (int layers) @ '' layers'')
                      (voxel_layers [(''Color'', ''Base Color'')] aspect d img w3)
               else w3)
     in case os_makedirs h (os_path_dirname h out) w4 of
          (Inl e, w5) \<Rightarrow> (Inl e, w5)
        | (Inr u, w5) \<Rightarrow>
            export_and_report h out (success_mark @ '' Success! Exported to: '' @ out) w5)"
  using assms
  by (simp add: convert_sprite_to_3d_def images_load_def truediv_def Let_def)

lemma convert_extrude_world:
  fixes d :: real and out :: string
  assumes "path_exists h w p" and "images_load_result h p = Inr (wd, ht)" and "ht \<noteq> 0"
  defines "w' \<equiv> snd (convert_sprite_to_3d h p out d ''extrude'' w)"
  shows "objects w' =
           [extrude_cube (Some ''Sprite3D'') (real_of_int wd / real_of_int ht) d (length (materials w))]"
    and "materials w' = materials w @
           [extrude_material \<lparr>img_id = length (images w), img_filepath = p, img_size = (wd, ht)\<rparr>]"
    and "images w' = images w @
           [\<lparr>img_id = length (images w), img_filepath = p, img_size = (wd, ht)\<rparr>]"
  unfolding w'_def
  by (simp_all add: convert_sprite_to_3d_loaded [OF assms(1-3)] Let_def makedirs_export_keeps
        quick_extrude_eq)

lemma convert_voxel_world:
  fixes d :: real and out :: string
  assumes "path_exists h w p" and "images_load_result h p = Inr (wd, ht)" and "ht \<noteq> 0"
  defines "w' \<equiv> snd (convert_sprite_to_3d h p out d ''voxel'' w)"
  shows "objects w' =
           map (\<lambda>i. voxel_plane (real_of_int wd / real_of_int ht) d i (length (materials w) + i)) [0..<layers]"
    and "materials w' = materials w @
           map (voxel_material [(''Color'', ''Base Color'')]
                  \<lparr>img_id = length (images w), img_filepath = p, img_size = (wd, ht)\<rparr>) [0..<layers]"
    and "images w' = images w @
           [\<lparr>img_id = length (images w), img_filepath = p, img_size = (wd, ht)\<rparr>]"
  unfolding w'_def
  by (simp_all add: convert_sprite_to_3d_loaded [OF assms(1-3)] Let_def makedirs_export_keeps
        voxel_layers_eq)

lemma add_billboard_eq:
  "add_billboard a img w =
     w\<lparr>materials := materials w @ [textured_material ''CharacterMaterial'' img],
       objects := objects w @
         [billboard_plane ''CharacterBillboard'' (0, 0, 0) (a, 1, 1) (length (materials w))]\<rparr>"
  by (simp add: add_billboard_def materials_new_def add_object_def)

lemma add_shadow_eq:
  "add_shadow a d w =
     w\<lparr>materials := materials w @ [shadow_material],
       objects := objects w @
         [billboard_plane ''CharacterShadow'' (0, - d, 0) (a * (105 / 100), 105 / 100, 1)
            (length (materials w))]\<rparr>"
  by (simp add: add_shadow_def materials_new_def add_object_def)

lemma add_capsule_eq:
  "add_capsule a img w =
     w\<lparr>materials := materials w @
         [body_material img, textured_material ''CharacterSpriteMaterial'' img],
       objects := objects w @
         [(primitive UVSphere (1 / 2) (0, 0, 1 / 2) (a * (6 / 10), 6 / 10, 1))
            \<lparr>obj_name := Some ''CharacterBody'', obj_materials := [length (materials w)]\<rparr>,
          billboard_plane ''CharacterSprite'' (0, 1 / 10, 1 / 2) (a, 1, 1)
            (length (materials w) + 1)]\<rparr>"
  by (simp add: add_capsule_def materials_new_def add_object_def Let_def)

lemma create_billboard_character_loaded:
  assumes "path_exists h w p" and "images_load_result h p = Inr (wd, ht)" and "ht \<noteq> 0"
  shows "create_billboard_character h p out m d w =
    (let img = \<lparr>img_id = length (images w), img_filepath = p, img_size = (wd, ht)\<rparr>;
         aspect = real_of_int wd / real_of_int ht;
         w1 = (py_print (''Loading character sprite: '' @ p) w)\<lparr>images := images w @ [img]\<rparr>;
         w2 = py_print (''Character sprite: '' @ str_int wd @ ''x'' @ str_int ht
                        @ '' (aspect: '' @ fmt_2f h aspect @ '')'') w1;
         w3 = (if m = ''billboard''
               then py_print ''Created billboard character'' (add_billboard aspect img w2)
               else if m = ''billboard-depth''
               then py_print (''Created billboard with depth shadow (depth: ''
                              @ str_float h d @ '')'')
                      (add_shadow aspect d (add_billboard aspect img w2))
               else if m = ''capsule''
               then py_print ''Created capsule character with billboard sprite''
                      (add_capsule aspect img w2)
               else w2)
     in export_and_report h out (success_mark_character @ '' Successfully exported: '' @ out) w3)"
  using assms
  by (simp add: create_billboard_character_def load_sprite_image_def images_load_def truediv_def
        Let_def)

lemma test_host_exporter:
  "gltf_result test_host q obs = None"
  "makedirs_result test_host d = None"
  by (simp_all add: test_host_def)

lemma os_makedirs_empty: "os_makedirs h [] w = (Inl FileNotFoundError, w)"
  by (simp add: os_makedirs_def)

lemma voxel_layers_files [simp]:
  "files (voxel_layers lnks a d img w) = files w"
  by (simp add: voxel_layers_eq)

lemma quick_extrude_files [simp]:
  "files (quick_extrude name a d img w) = files w"
  by (simp add: quick_extrude_eq)

lemma exit_with_simps [simp]:
  "exit_with (Inl e, w) = (Uncaught e, w)"
  "exit_with (Inr b, w) = (Exit (if b then 0 else 1), w)"
  by (simp_all add: exit_with_def)

lemma snd_exit_with [simp]: "snd (exit_with r) = snd r"
  by (cases r) (simp add: exit_with_def split: sum.splits)

lemma ensure_output_dir_keeps:
  "objects (snd (ensure_output_dir h out w)) = objects w"
  "materials (snd (ensure_output_dir h out w)) = materials w"
  "images (snd (ensure_output_dir h out w)) = images w"
  "files (snd (ensure_output_dir h out w)) = files w"
  "stdout (snd (ensure_output_dir h out w)) = stdout w"
  by (simp_all add: ensure_output_dir_def os_makedirs_keeps)

lemma ensure_output_dir_exists:
  "path_exists h w p \<Longrightarrow> path_exists h (snd (ensure_output_dir h out w)) p"
  by (auto simp add: ensure_output_dir_def os_makedirs_def path_exists_def split: option.splits)

text \<open>What the two \<open>main\<close> functions do with two to four arguments.\<close>

lemma sprite_to_3d_main_args:
  assumes "script_args sys_argv = s # out # rest"
  shows "sprite_to_3d_main h sys_argv w =
    (case (case rest of [] \<Rightarrow> Inr (1 / 2) | ds # r \<Rightarrow> py_float h ds) of
       Inl e \<Rightarrow> (Uncaught e, w)
     | Inr depth \<Rightarrow>
         (case ensure_output_dir h out w of
            (Inl e, w1) \<Rightarrow> (Uncaught e, w1)
          | (Inr u, w1) \<Rightarrow>
              exit_with (create_3d_from_sprite h s out depth
                           (case rest of ds # m # r \<Rightarrow> m | r \<Rightarrow> ''extrude'') w1)))"
proof (cases rest)
  case Nil
  show ?thesis
    using assms unfolding Nil by (simp add: sprite_to_3d_main_def Let_def split: prod.splits sum.splits)
next
  case (Cons ds r)
  show ?thesis
  proof (cases r)
    case Nil
    show ?thesis
      using assms unfolding Cons Nil by (simp add: sprite_to_3d_main_def Let_def split: prod.splits sum.splits)
  next
    case (Cons m r')
    show ?thesis
      using assms unfolding \<open>rest = ds # r\<close> Cons by (simp add: sprite_to_3d_main_def Let_def split: prod.splits sum.splits)
  qed
qed

lemma character_to_3d_main_args:
  assumes "script_args sys_argv = s # out # rest"
  shows "character_to_3d_main h sys_argv w =
    (case (case rest of m # ds # r \<Rightarrow> py_float h ds | r \<Rightarrow> Inr (1 / 10)) of
       Inl e \<Rightarrow> (Uncaught e, w)
     | Inr depth \<Rightarrow>
         (case ensure_output_dir h out w of
            (Inl e, w1) \<Rightarrow> (Uncaught e, w1)
          | (Inr u, w1) \<Rightarrow>
              exit_with (create_billboard_character h s out
                           (case rest of [] \<Rightarrow> ''billboard-depth'' | m # r \<Rightarrow> m) depth w1)))"
proof (cases rest)
  case Nil
  show ?thesis
    using assms unfolding Nil by (simp add: character_to_3d_main_def Let_def split: prod.splits sum.splits)
next
  case (Cons m r)
  show ?thesis
  proof (cases r)
    case Nil
    show ?thesis
      using assms unfolding Cons Nil by (simp add: character_to_3d_main_def Let_def split: prod.splits sum.splits)
  next
    case (Cons ds r')
    show ?thesis
      using assms unfolding \<open>rest = m # r\<close> Cons by (simp add: character_to_3d_main_def Let_def split: prod.splits sum.splits)
  qed
qed

lemma sprite_to_3d_main_usage:
  "length (script_args sys_argv) < 2 \<Longrightarrow>
     sprite_to_3d_main h sys_argv w = (Finished, fold py_print sprite_to_3d_usage w)"
  by (simp add: sprite_to_3d_main_def Let_def)

lemma character_to_3d_main_usage:
  "length (script_args sys_argv) < 2 \<Longrightarrow>
     character_to_3d_main h sys_argv w = (Finished, fold py_print character_to_3d_usage w)"
  by (simp add: character_to_3d_main_def Let_def)

lemma index_of_Some_iff: "(\<exists>k. index_of x xs = Some k) \<longleftrightarrow> x \<in> set xs"
  by (induction xs) auto

lemma fbx_to_glb_script_usage:
  "''--'' \<in> set sys_argv \<Longrightarrow> length (script_args sys_argv) < 2 \<Longrightarrow>
     fbx_to_glb_script h sys_argv w = (Exit 1, py_print fbx_usage w)"
  using index_of_Some_iff [of "''--''" sys_argv]
  by (auto simp add: fbx_to_glb_script_def script_args_def Let_def)

lemma execute_extrude_world:
  fixes self :: operator
  assumes "path_exists h w p" and "images_load_result h p = Inr (wd, ht)" and "ht \<noteq> 0"
    and "op_filepath self = p" and "op_method self = EXTRUDE"
  defines "w' \<equiv> snd (execute h self w)"
  shows "objects w' = objects w @
           [extrude_cube None (real_of_int wd / real_of_int ht) (op_depth self) (length (materials w))]"
    and "materials w' = materials w @
           [extrude_material \<lparr>img_id = length (images w), img_filepath = p, img_size = (wd, ht)\<rparr>]"
  unfolding w'_def using assms(4,5)
  by (simp_all add: execute_loaded [of h w self, OF assms(1-3) [folded assms(4)]] Let_def
        quick_extrude_eq)

lemma path_exists_fold_print [simp]:
  "path_exists h (fold py_print xs w) p = path_exists h w p"
  by (induction xs arbitrary: w) simp_all

lemma fold_print_fields [simp]:
  "objects (fold py_print xs w) = objects w"
  "materials (fold py_print xs w) = materials w"
  "files (fold py_print xs w) = files w"
  "dirs (fold py_print xs w) = dirs w"
  "stdout (fold py_print xs w) = stdout w @ xs"
  by (induction xs arbitrary: w) simp_all

text \<open>The FBX script with its two arguments, by what the host answers.\<close>

lemma fbx_script_args:
  assumes "script_args sys_argv = i # out # rest"
  shows "\<exists>k. index_of ''--'' sys_argv = Some k \<and> drop (k + 1) sys_argv = i # out # rest"
  using assms by (cases "index_of ''--'' sys_argv") (simp_all add: script_args_def)

lemma fbx_missing_input:
  assumes "script_args sys_argv = i # out # rest" and "\<not> path_exists h w i"
  shows "fst (fbx_to_glb_script h sys_argv w) = Exit 1"
    and "files (snd (fbx_to_glb_script h sys_argv w)) = files w"
proof -
  obtain k where k: "index_of ''--'' sys_argv = Some k" "drop (k + 1) sys_argv = i # out # rest"
    using fbx_script_args [OF assms(1)] by blast
  show "fst (fbx_to_glb_script h sys_argv w) = Exit 1"
    "files (snd (fbx_to_glb_script h sys_argv w)) = files w"
    using assms(2) k(2) by (simp_all add: fbx_to_glb_script_def k(1) Let_def)
qed

lemma fbx_import_fails:
  assumes "script_args sys_argv = i # out # rest" and "path_exists h w i"
    and "fbx_import_result h i = Inl e"
  shows "fst (fbx_to_glb_script h sys_argv w) = Exit 1"
    and "files (snd (fbx_to_glb_script h sys_argv w)) = files w"
proof -
  obtain k where k: "index_of ''--'' sys_argv = Some k" "drop (k + 1) sys_argv = i # out # rest"
    using fbx_script_args [OF assms(1)] by blast
  show "fst (fbx_to_glb_script h sys_argv w) = Exit 1"
    "files (snd (fbx_to_glb_script h sys_argv w)) = files w"
    using assms(2,3) k(2)
    by (simp_all add: fbx_to_glb_script_def k(1) Let_def import_scene_fbx_def)
qed

lemma fbx_output_dir_made:
  assumes "makedirs_result h (os_path_dirname h out) = None"
  shows "fst (fbx_output_dir h out w) = Inr ()"
    and "objects (snd (fbx_output_dir h out w)) = objects w"
    and "files (snd (fbx_output_dir h out w)) = files w"
  using assms by (simp_all add: fbx_output_dir_def os_makedirs_def Let_def)

lemma fbx_export_result:
  "fst (fbx_export h out w) =
     (case gltf_result h (fbx_export_params out) (objects w) of None \<Rightarrow> Finished | Some e \<Rightarrow> Exit 1)"
  "files (snd (fbx_export h out w)) =
     (case gltf_result h (fbx_export_params out) (objects w) of
        None \<Rightarrow> files w @ [(out, objects w)] | Some e \<Rightarrow> files w)"
  by (simp_all add: fbx_export_def export_scene_gltf_def fbx_export_params_def Let_def
        split: option.splits)

lemma fbx_dir_then_export:
  fixes w :: world
  assumes "makedirs_result h (os_path_dirname h out) = None"
  defines "r \<equiv> (case fbx_output_dir h out w of
                   (Inl e, w4) \<Rightarrow> (Uncaught e, w4)
                 | (Inr u, w4) \<Rightarrow> fbx_export h out w4)"
  shows "fst r =
           (case gltf_result h (fbx_export_params out) (objects w) of
              None \<Rightarrow> Finished | Some e \<Rightarrow> Exit 1)"
    and "files (snd r) =
           (case gltf_result h (fbx_export_params out) (objects w) of
              None \<Rightarrow> files w @ [(out, objects w)] | Some e \<Rightarrow> files w)"
proof -
  obtain x w4 where d: "fbx_output_dir h out w = (x, w4)"
    by (cases "fbx_output_dir h out w")
  have d': "x = Inr ()" "objects w4 = objects w" "files w4 = files w"
    using fbx_output_dir_made [OF assms(1), of w] by (simp_all add: d)
  show "fst r =
           (case gltf_result h (fbx_export_params out) (objects w) of
              None \<Rightarrow> Finished | Some e \<Rightarrow> Exit 1)"
    "files (snd r) =
           (case gltf_result h (fbx_export_params out) (objects w) of
              None \<Rightarrow> files w @ [(out, objects w)] | Some e \<Rightarrow> files w)"
    unfolding r_def d d' by (simp_all add: fbx_export_result d' split: option.splits)
qed

lemma fbx_imported:
  assumes "script_args sys_argv = i # out # rest" and "path_exists h w i"
    and "fbx_import_result h i = Inr obs"
    and "makedirs_result h (os_path_dirname h out) = None"
  shows "fst (fbx_to_glb_script h sys_argv w) =
           (case gltf_result h (fbx_export_params out) obs of None \<Rightarrow> Finished | Some e \<Rightarrow> Exit 1)"
    and "files (snd (fbx_to_glb_script h sys_argv w)) =
           (case gltf_result h (fbx_export_params out) obs of
              None \<Rightarrow> files w @ [(out, obs)] | Some e \<Rightarrow> files w)"
proof -
  obtain k where k: "index_of ''--'' sys_argv = Some k" "drop (k + 1) sys_argv = i # out # rest"
    using fbx_script_args [OF assms(1)] by blast
  show "fst (fbx_to_glb_script h sys_argv w) =
           (case gltf_result h (fbx_export_params out) obs of None \<Rightarrow> Finished | Some e \<Rightarrow> Exit 1)"
    "files (snd (fbx_to_glb_script h sys_argv w)) =
           (case gltf_result h (fbx_export_params out) obs of
              None \<Rightarrow> files w @ [(out, obs)] | Some e \<Rightarrow> files w)"
    using assms(2,3) k(2)
    by (simp_all add: fbx_to_glb_script_def k(1) Let_def import_scene_fbx_def
          fbx_dir_then_export [OF assms(4)] split: option.splits)
qed

lemma create_3d_load_fails:
  assumes "path_exists h w s" and "images_load_result h s = Inl e"
  shows "fst (create_3d_from_sprite h s out d m w) = Inr False"
  using assms by (simp add: create_3d_from_sprite_def images_load_def Let_def)

lemma create_3d_from_sprite_accepted:
  assumes "path_exists h w p" and "images_load_result h p = Inr (wd, ht)" and "ht \<noteq> 0"
    and "\<And>q obs. gltf_result h q obs = None"
  shows "fst (create_3d_from_sprite h p out d m w) = Inr True"
  by (simp add: create_3d_from_sprite_loaded [OF assms(1-3)] Let_def
        sprite_extrude_eq [OF assms(2)] export_and_report_accepted assms(4))

lemma create_billboard_character_accepted:
  assumes "path_exists h w p" and "images_load_result h p = Inr (wd, ht)" and "ht \<noteq> 0"
    and "\<And>q obs. gltf_result h q obs = None"
  shows "fst (create_billboard_character h p out m d w) = Inr True"
  by (simp add: create_billboard_character_loaded [OF assms(1-3)] Let_def
        export_and_report_accepted assms(4))

lemma export_and_report_refused:
  assumes "gltf_result h ((export_params out)\<lparr>gp_export_colors := Some True\<rparr>) (objects w) = Some e"
    and "e \<noteq> TypeError"
  shows "fst (export_and_report h out msg w) = Inl e"
  using assms
  by (cases e) (simp_all add: export_and_report_def export_glb_def export_scene_gltf_def)

lemma test_host_paths:
  "ensure_output_dir test_host ''out.glb'' empty_world = (Inr (), empty_world\<lparr>dirs := [''.'']\<rparr>)"
  "path_exists test_host (empty_world\<lparr>dirs := [''.'']\<rparr>) ''sprite.png''"
  "\<not> path_exists test_host (empty_world\<lparr>dirs := [''.'']\<rparr>) ''nothing.png''"
  "\<not> path_exists test_host empty_world ''nothing.fbx''"
  "path_exists test_host empty_world ''model.fbx''"
  "os_path_dirname test_host ''out.glb'' = []"
  by (simp_all add: ensure_output_dir_def os_makedirs_def test_host_def posix_dirname_def
        empty_world_def path_exists_def)

lemma broken_hosts:
  "images_load_result broken_loader_host p = Inl RuntimeError"
  "fbx_import_result broken_loader_host p = Inl RuntimeError"
  "os_path_exists broken_loader_host = os_path_exists test_host"
  "os_path_dirname broken_loader_host = os_path_dirname test_host"
  "makedirs_result broken_loader_host = makedirs_result test_host"
  "gltf_result broken_exporter_host q obs = Some RuntimeError"
  "os_path_exists broken_exporter_host = os_path_exists test_host"
  "os_path_dirname broken_exporter_host = os_path_dirname test_host"
  "makedirs_result broken_exporter_host = makedirs_result test_host"
  "images_load_result broken_exporter_host = images_load_result test_host"
  "fbx_import_result broken_exporter_host p = Inr []"
  by (simp_all add: broken_loader_host_def broken_exporter_host_def test_host_def)

lemma broken_host_paths:
  "path_exists broken_loader_host w p = path_exists test_host w p"
  "path_exists broken_exporter_host w p = path_exists test_host w p"
  "ensure_output_dir broken_loader_host out w = ensure_output_dir test_host out w"
  "ensure_output_dir broken_exporter_host out w = ensure_output_dir test_host out w"
  by (simp_all add: path_exists_def ensure_output_dir_def os_makedirs_def broken_hosts
        split: option.splits)

text \<open>A method that no branch tests for: what the two functions do, whatever the sprite.\<close>

lemma create_3d_from_sprite_cases:
  obtains (missing) "\<not> path_exists h w p"
      "create_3d_from_sprite h p out d m w =
         (Inr False, py_print (''Error: Image not found: '' @ p) (py_print (''Loading sprite: '' @ p) w))"
  | (unreadable) e where "path_exists h w p" "images_load_result h p = Inl e"
      "create_3d_from_sprite h p out d m w =
         (Inr False, py_print (''Error loading image: '' @ str_exc h e) (py_print (''Loading sprite: '' @ p) w))"
  | (flat) wd where "path_exists h w p" "images_load_result h p = Inr (wd, 0)"
      "create_3d_from_sprite h p out d m w =
         (Inl ZeroDivisionError,
          (py_print (''Loading sprite: '' @ p) w)
            \<lparr>images := images w @ [\<lparr>img_id = length (images w), img_filepath = p, img_size = (wd, 0)\<rparr>]\<rparr>)"
  | (loaded) wd ht where "path_exists h w p" "images_load_result h p = Inr (wd, ht)" "ht \<noteq> 0"
proof (cases "path_exists h w p")
  case False
  then show ?thesis
    by (intro missing) (simp_all add: create_3d_from_sprite_def Let_def)
next
  case True
  show ?thesis
  proof (cases "images_load_result h p")
    case (Inl e)
    with True show ?thesis
      by (intro unreadable [of e]) (simp_all add: create_3d_from_sprite_def images_load_def Let_def)
  next
    case (Inr sz)
    obtain wd ht where sz: "sz = (wd, ht)" by (cases sz)
    show ?thesis
    proof (cases "ht = 0")
      case True
      with \<open>path_exists h w p\<close> Inr sz show ?thesis
        by (intro flat [of wd])
           (simp_all add: create_3d_from_sprite_def images_load_def truediv_def Let_def)
    next
      case False
      with \<open>path_exists h w p\<close> Inr sz show ?thesis
        by (intro loaded [of wd ht]) simp_all
    qed
  qed
qed

lemma create_3d_from_sprite_unknown:
  assumes "m \<noteq> ''extrude''" and "m \<noteq> ''voxel''"
  shows "create_3d_from_sprite h p out d m w = create_3d_from_sprite h p out d [] w"
    and "objects (snd (create_3d_from_sprite h p out d m w)) = objects w"
    and "materials (snd (create_3d_from_sprite h p out d m w)) = materials w"
proof -
  have "create_3d_from_sprite h p out d m w = create_3d_from_sprite h p out d [] w
      \<and> objects (snd (create_3d_from_sprite h p out d m w)) = objects w
      \<and> materials (snd (create_3d_from_sprite h p out d m w)) = materials w"
  proof (cases rule: create_3d_from_sprite_cases [of h w p out d m])
    case missing
    then show ?thesis by (simp add: create_3d_from_sprite_def Let_def)
  next
    case (unreadable e)
    then show ?thesis by (simp add: create_3d_from_sprite_def images_load_def Let_def)
  next
    case (flat wd)
    then show ?thesis
      by (simp add: create_3d_from_sprite_def images_load_def truediv_def Let_def)
  next
    case (loaded wd ht)
    show ?thesis
      by (simp add: create_3d_from_sprite_loaded [OF loaded] Let_def assms export_and_report_keeps)
  qed
  then show "create_3d_from_sprite h p out d m w = create_3d_from_sprite h p out d [] w"
    and "objects (snd (create_3d_from_sprite h p out d m w)) = objects w"
    and "materials (snd (create_3d_from_sprite h p out d m w)) = materials w"
    by blast+
qed

lemma create_billboard_character_unknown:
  assumes "m \<noteq> ''billboard''" and "m \<noteq> ''billboard-depth''" and "m \<noteq> ''capsule''"
  shows "create_billboard_character h p out m d w = create_billboard_character h p out [] d w"
    and "objects (snd (create_billboard_character h p out m d w)) = objects w"
    and "materials (snd (create_billboard_character h p out m d w)) = materials w"
proof -
  have "create_billboard_character h p out m d w = create_billboard_character h p out [] d w
      \<and> objects (snd (create_billboard_character h p out m d w)) = objects w
      \<and> materials (snd (create_billboard_character h p out m d w)) = materials w"
  proof (cases "path_exists h w p")
    case False
    then show ?thesis
      by (simp add: create_billboard_character_def load_sprite_image_def)
  next
    case True
    show ?thesis
    proof (cases "images_load_result h p")
      case (Inl e)
      with True show ?thesis
        by (simp add: create_billboard_character_def load_sprite_image_def images_load_def)
    next
      case (Inr sz)
      obtain wd ht where sz: "sz = (wd, ht)" by (cases sz)
      show ?thesis
      proof (cases "ht = 0")
        case z: True
        with True Inr sz show ?thesis
          by (simp add: create_billboard_character_def load_sprite_image_def images_load_def
                truediv_def Let_def)
      next
        case False
        with True Inr sz have l: "path_exists h w p" "images_load_result h p = Inr (wd, ht)" "ht \<noteq> 0"
          by simp_all
        show ?thesis
          by (simp add: create_billboard_character_loaded [OF l] Let_def assms
                export_and_report_keeps)
      qed
    qed
  qed
  then show "create_billboard_character h p out m d w = create_billboard_character h p out [] d w"
    and "objects (snd (create_billboard_character h p out m d w)) = objects w"
    and "materials (snd (create_billboard_character h p out m d w)) = materials w"
    by blast+
qed

lemma create_billboard_character_missing:
  assumes "\<not> path_exists h w s"
  shows "fst (create_billboard_character h s out m d w) = Inr False"
  using assms by (simp add: create_billboard_character_def load_sprite_image_def)

lemma create_3d_from_sprite_missing:
  assumes "\<not> path_exists h w s"
  shows "fst (create_3d_from_sprite h s out d m w) = Inr False"
  using assms by (simp add: create_3d_from_sprite_def Let_def)

text \<open>The two \<open>main\<close> functions once depth and directory are settled.\<close>

lemma sprite_to_3d_main_converts:
  assumes "script_args sys_argv = s # out # rest"
    and "(case rest of [] \<Rightarrow> Inr (1 / 2) | ds # r \<Rightarrow> py_float h ds) = Inr x"
    and "fst (ensure_output_dir h out w) = Inr ()"
  shows "sprite_to_3d_main h sys_argv w =
           exit_with (create_3d_from_sprite h s out x
                        (case rest of ds # m # r \<Rightarrow> m | r \<Rightarrow> ''extrude'')
                        (snd (ensure_output_dir h out w)))"
proof -
  obtain w1 where e: "ensure_output_dir h out w = (Inr (), w1)"
    using assms(3) by (cases "ensure_output_dir h out w") simp
  show ?thesis
    unfolding sprite_to_3d_main_args [OF assms(1)] assms(2) e by simp
qed

lemma character_to_3d_main_converts:
  assumes "script_args sys_argv = s # out # rest"
    and "(case rest of m # ds # r \<Rightarrow> py_float h ds | r \<Rightarrow> Inr (1 / 10)) = Inr x"
    and "fst (ensure_output_dir h out w) = Inr ()"
  shows "character_to_3d_main h sys_argv w =
           exit_with (create_billboard_character h s out
                        (case rest of [] \<Rightarrow> ''billboard-depth'' | m # r \<Rightarrow> m) x
                        (snd (ensure_output_dir h out w)))"
proof -
  obtain w1 where e: "ensure_output_dir h out w = (Inr (), w1)"
    using assms(3) by (cases "ensure_output_dir h out w") simp
  show ?thesis
    unfolding character_to_3d_main_args [OF assms(1)] assms(2) e by simp
qed

lemma exit_with_fst:
  "fst r = Inr b \<Longrightarrow> fst (exit_with r) = Exit (if b then 0 else 1)"
  by (cases r) (simp add: exit_with_def)

lemma test_host_floats:
  "py_float test_host ''0.4'' = Inr (2 / 5)"
  "py_float test_host ''voxel'' = Inl ValueError"
  "py_float broken_loader_host ''0.4'' = Inr (2 / 5)"
  by (simp_all add: py_float_def test_host_def broken_loader_host_def)

section \<open>The Voxel layout (claim C1)\<close>

text \<open>
  Claim C1, as amended. With the Voxel method and depth 0.4, the conversion of
  \<open>create_3d_from_sprite\<close> and the add-on operator each add exactly 8 planes to the scene.
  Their positions along the depth axis are \<open>-0.2 + 0.05 i\<close> for \<open>i = 0, \<dots>, 7\<close>: evenly
  spaced with step \<open>depth / 8\<close>, from \<open>-depth / 2\<close> up to \<open>0.15\<close>; the end \<open>0.2\<close> of the
  interval is not reached. Each plane has one material slot holding a material of its own
  (the \<open>i\<close>-th new material), and all 8 materials are alpha-blended and have a texture node
  on the one image loaded from the sprite path.
\<close>

theorem voxel_eight_planes:
  assumes "path_exists h w p" and "images_load_result h p = Inr (wd, ht)" and "ht \<noteq> 0"
  shows "\<forall>w' \<in> {snd (create_3d_from_sprite h p out (2 / 5) ''voxel'' w),
                 snd (execute h (ConvertSpriteTo3D p (Some (2 / 5)) (Some VOXEL)) w)}.
           objects w' = objects w @ new_objects w w'
         \<and> map obj_shape (new_objects w w') = replicate 8 Plane
         \<and> map obj_location (new_objects w w') =
             [(0, - (1 / 5), 0), (0, - (3 / 20), 0), (0, - (1 / 10), 0), (0, - (1 / 20), 0),
              (0, 0, 0), (0, 1 / 20, 0), (0, 1 / 10, 0), (0, 3 / 20, 0)]
         \<and> map obj_scale (new_objects w w') = replicate 8 (real_of_int wd / real_of_int ht, 1, 1)
         \<and> map obj_materials (new_objects w w') = map (\<lambda>i. [length (materials w) + i]) [0..<8]
         \<and> materials w' = materials w @ new_materials w w'
         \<and> map tex_image (new_materials w w') = replicate 8 (Some (length (images w)))
         \<and> map blend_method (new_materials w w') = replicate 8 ''BLEND''
         \<and> images w' = images w @ new_images w w'
         \<and> map img_id (new_images w w') = [length (images w)]
         \<and> map img_filepath (new_images w w') = [p]"
proof -
  let ?op = "ConvertSpriteTo3D p (Some (2 / 5)) (Some VOXEL)"
  have op: "op_filepath ?op = p" "op_method ?op = VOXEL" "op_depth ?op = 2 / 5"
    by (simp_all add: ConvertSpriteTo3D_def float_property_set_def depth_property_def)
  note a = create_3d_voxel_world [OF assms, of out "2 / 5"]
  note b = execute_voxel_world [OF assms op(1,2)]
  have eight: "replicate 8 x = [x, x, x, x, x, x, x, x]" for x :: 'a
    by (simp add: numeral_eq_Suc)
  have upt8: "[0..<8] = [0, 1, 2, 3, 4, 5, 6, 7]"
    by (simp add: upt_rec)
  show ?thesis
    by (simp add: a b op(3) new_objects_def new_materials_def new_images_def upt_layers eight upt8
          voxel_plane_def voxel_material_def primitive_def node_material_def layers_def)
qed

text \<open>
  The theorem at the concrete host, from the empty world: the hypotheses hold there, and the
  eight planes and their material slots are as stated, for the script and for the operator.
\<close>

theorem voxel_eight_planes_witness:
  "path_exists test_host empty_world ''sprite.png''
   \<and> images_load_result test_host ''sprite.png'' = Inr (800, 400)
   \<and> (400 :: int) \<noteq> 0
   \<and> map y_pos (objects (snd (create_3d_from_sprite test_host ''sprite.png'' ''out.glb'' (2 / 5)
                                 ''voxel'' empty_world))) =
         [- (1 / 5), - (3 / 20), - (1 / 10), - (1 / 20), 0, 1 / 20, 1 / 10, 3 / 20]
   \<and> map obj_materials (objects (snd (create_3d_from_sprite test_host ''sprite.png'' ''out.glb'' (2 / 5)
                                 ''voxel'' empty_world))) =
         [[0], [1], [2], [3], [4], [5], [6], [7]]
   \<and> map y_pos (objects (snd (execute test_host
                                 (ConvertSpriteTo3D ''sprite.png'' (Some (2 / 5)) (Some VOXEL))
                                 empty_world))) =
         [- (1 / 5), - (3 / 20), - (1 / 10), - (1 / 20), 0, 1 / 20, 1 / 10, 3 / 20]"
proof -
  have nz: "(400 :: int) \<noteq> 0" by simp
  note t = voxel_eight_planes [OF test_host_sprite(1,2) nz, of "''out.glb''"]
  have e: "objects empty_world = []" "materials empty_world = []"
    by (simp_all add: empty_world_def)
  have upt8: "[0..<8] = [0, 1, 2, 3, 4, 5, 6, 7]"
    by (simp add: upt_rec)
  from t have
    "map obj_location (objects (snd (create_3d_from_sprite test_host ''sprite.png'' ''out.glb'' (2 / 5)
                                 ''voxel'' empty_world))) =
             [(0, - (1 / 5), 0), (0, - (3 / 20), 0), (0, - (1 / 10), 0), (0, - (1 / 20), 0),
              (0, 0, 0), (0, 1 / 20, 0), (0, 1 / 10, 0), (0, 3 / 20, 0)]"
    "map obj_materials (objects (snd (create_3d_from_sprite test_host ''sprite.png'' ''out.glb'' (2 / 5)
                                 ''voxel'' empty_world))) = [[0], [1], [2], [3], [4], [5], [6], [7]]"
    "map obj_location (objects (snd (execute test_host
                                 (ConvertSpriteTo3D ''sprite.png'' (Some (2 / 5)) (Some VOXEL))
                                 empty_world))) =
             [(0, - (1 / 5), 0), (0, - (3 / 20), 0), (0, - (1 / 10), 0), (0, - (1 / 20), 0),
              (0, 0, 0), (0, 1 / 20, 0), (0, 1 / 10, 0), (0, 3 / 20, 0)]"
    by (simp_all add: new_objects_def e upt8)
  note l = this
  have y: "map y_pos xs = map (\<lambda>l. fst (snd l)) (map obj_location xs)" for xs
    by (simp add: y_pos_def)
  have
    "map y_pos (objects (snd (create_3d_from_sprite test_host ''sprite.png'' ''out.glb'' (2 / 5)
                                 ''voxel'' empty_world))) =
         [- (1 / 5), - (3 / 20), - (1 / 10), - (1 / 20), 0, 1 / 20, 1 / 10, 3 / 20]"
    "map obj_materials (objects (snd (create_3d_from_sprite test_host ''sprite.png'' ''out.glb'' (2 / 5)
                                 ''voxel'' empty_world))) = [[0], [1], [2], [3], [4], [5], [6], [7]]"
    "map y_pos (objects (snd (execute test_host
                                 (ConvertSpriteTo3D ''sprite.png'' (Some (2 / 5)) (Some VOXEL))
                                 empty_world))) =
         [- (1 / 5), - (3 / 20), - (1 / 10), - (1 / 20), 0, 1 / 20, 1 / 10, 3 / 20]"
    unfolding y l by simp_all
  then show ?thesis
    using test_host_sprite(1,2) nz by simp
qed

text \<open>
  Claim C1 as the specification states it fails. Eight values evenly spaced across the closed
  interval \<open>[-0.2, 0.2]\<close> end at \<open>0.2\<close> and are \<open>0.4 / 7\<close> apart; the planes of the script
  are \<open>0.05\<close> apart and the last one is at \<open>0.15\<close>: no plane is at the upper end \<open>0.2\<close>.
\<close>

theorem voxel_closed_interval_counterexample:
  "map y_pos (objects (snd (create_3d_from_sprite test_host ''sprite.png'' ''out.glb'' (2 / 5)
                              ''voxel'' empty_world))) =
     [- (1 / 5), - (3 / 20), - (1 / 10), - (1 / 20), 0, 1 / 20, 1 / 10, 3 / 20]
   \<and> evenly_spaced_closed (- (1 / 5)) (1 / 5) 8 =
     [- (1 / 5), - (1 / 7), - (3 / 35), - (1 / 35), 1 / 35, 3 / 35, 1 / 7, 1 / 5]
   \<and> map y_pos (objects (snd (create_3d_from_sprite test_host ''sprite.png'' ''out.glb'' (2 / 5)
                              ''voxel'' empty_world))) \<noteq>
     evenly_spaced_closed (- (1 / 5)) (1 / 5) 8
   \<and> 1 / 5 \<notin> set (map y_pos (objects (snd (create_3d_from_sprite test_host ''sprite.png''
                              ''out.glb'' (2 / 5) ''voxel'' empty_world))))"
proof -
  have nz: "(400 :: int) \<noteq> 0" by simp
  have e: "objects empty_world = []" "materials empty_world = []"
    by (simp_all add: empty_world_def)
  have a: "map y_pos (objects (snd (create_3d_from_sprite test_host ''sprite.png'' ''out.glb'' (2 / 5)
                              ''voxel'' empty_world))) =
     [- (1 / 5), - (3 / 20), - (1 / 10), - (1 / 20), 0, 1 / 20, 1 / 10, 3 / 20]"
    by (simp add: create_3d_voxel_world(1) [OF test_host_sprite(1,2) nz] e upt_layers
          voxel_plane_def primitive_def y_pos_def)
       (simp add: layers_def)
  have b: "evenly_spaced_closed (- (1 / 5)) (1 / 5) 8 =
     [- (1 / 5), - (1 / 7), - (3 / 35), - (1 / 35), 1 / 35, 3 / 35, 1 / 7, 1 / 5]"
    by (simp add: evenly_spaced_closed_def upt_rec)
  show ?thesis
    unfolding a b by simp
qed

section \<open>The Extrude layout (claim C5)\<close>

text \<open>
  Claim C5. For a sprite of 800 by 400 pixels (aspect 2.0), the Extrude method and depth 0.5,
  \<open>create_3d_from_sprite\<close> adds exactly one object to the scene and \<open>convert_sprite_to_3d\<close>
  leaves exactly one object in it: a cube with scale \<open>(2.0, 1.0, 0.5)\<close> at the origin,
  unwrapped with the angle-based method and margin 0.001, with one material slot. The one new
  material is alpha-blended (blend mode BLEND) and has a texture node on an image loaded from
  the sprite path, whose colour is linked to the base colour and whose alpha is linked to the
  alpha. (\<open>create_3d_from_sprite\<close> loads the image twice and uses the second data block.)
\<close>

theorem extrude_one_cuboid:
  assumes "path_exists h w p" and "images_load_result h p = Inr (800, 400)"
    and "w1 = snd (create_3d_from_sprite h p out (1 / 2) ''extrude'' w)"
    and "w2 = snd (convert_sprite_to_3d h p out (1 / 2) ''extrude'' w)"
  shows "objects w1 = objects w @
           [\<lparr>obj_name = None, obj_shape = Cube, obj_dim = 2, obj_location = (0, 0, 0),
             obj_scale = (2, 1, 1 / 2), obj_materials = [length (materials w)],
             obj_uv_unwrap = Some (''ANGLE_BASED'', 1 / 1000)\<rparr>]
       \<and> materials w1 = materials w @
           [\<lparr>mat_name = ''SpriteMaterial'', use_nodes = True,
             tex_image = Some (length (images w) + 1),
             links = [(''Color'', ''Base Color''), (''Alpha'', ''Alpha'')],
             base_color_default = None, alpha_default = Some 1, emission_strength = None,
             blend_method = ''BLEND''\<rparr>]
       \<and> map img_filepath (new_images w w1) = [p, p]
       \<and> map img_id (new_images w w1) = [length (images w), length (images w) + 1]
       \<and> objects w2 =
           [\<lparr>obj_name = Some ''Sprite3D'', obj_shape = Cube, obj_dim = 2, obj_location = (0, 0, 0),
             obj_scale = (2, 1, 1 / 2), obj_materials = [length (materials w)],
             obj_uv_unwrap = Some (''ANGLE_BASED'', 1 / 1000)\<rparr>]
       \<and> materials w2 = materials w @
           [\<lparr>mat_name = ''SpriteMaterial'', use_nodes = True,
             tex_image = Some (length (images w)),
             links = [(''Color'', ''Base Color''), (''Alpha'', ''Alpha'')],
             base_color_default = None, alpha_default = Some 1, emission_strength = None,
             blend_method = ''BLEND''\<rparr>]
       \<and> map img_filepath (new_images w w2) = [p]
       \<and> map img_id (new_images w w2) = [length (images w)]"
proof -
  have nz: "(400 :: int) \<noteq> 0" by simp
  note a = create_3d_extrude_world [OF assms(1,2) nz, of out "1 / 2"]
  note b = convert_extrude_world [OF assms(1,2) nz, of out "1 / 2"]
  show ?thesis
    unfolding assms(3,4)
    by (simp add: a b new_images_def extrude_cube_def extrude_material_def primitive_def
          node_material_def)
qed


text \<open>The theorem at the concrete host, from the empty world.\<close>

theorem extrude_one_cuboid_witness:
  "path_exists test_host empty_world ''sprite.png''
   \<and> images_load_result test_host ''sprite.png'' = Inr (800, 400)
   \<and> map obj_scale (objects (snd (create_3d_from_sprite test_host ''sprite.png'' ''out.glb'' (1 / 2)
                                    ''extrude'' empty_world))) = [(2, 1, 1 / 2)]
   \<and> map tex_image (materials (snd (create_3d_from_sprite test_host ''sprite.png'' ''out.glb'' (1 / 2)
                                    ''extrude'' empty_world))) = [Some 1]
   \<and> map obj_scale (objects (snd (convert_sprite_to_3d test_host ''sprite.png'' ''out.glb'' (1 / 2)
                                    ''extrude'' empty_world))) = [(2, 1, 1 / 2)]
   \<and> map tex_image (materials (snd (convert_sprite_to_3d test_host ''sprite.png'' ''out.glb'' (1 / 2)
                                    ''extrude'' empty_world))) = [Some 0]"
  using extrude_one_cuboid [OF test_host_sprite(1,2) refl refl, of "''out.glb''"] test_host_sprite(1,2)
  by (simp add: empty_world_def)

section \<open>The character layouts (claims C4 and C6)\<close>

text \<open>
  Claim C4. With the method \<open>billboard-depth\<close> and depth 0.1, \<open>create_billboard_character\<close>
  adds exactly two objects. The first is the front plane at the origin with scale
  \<open>(aspect, 1, 1)\<close>; its material has a texture node on the sprite image giving base colour
  and alpha, and is alpha-blended. The second is the back plane at \<open>y = -0.1\<close>, behind the
  front plane by the depth, with scale \<open>(aspect * 1.05, 1.05, 1)\<close>; its material has no
  texture, the base colour black \<open>(0, 0, 0, 1)\<close>, the alpha 0.3, and is alpha-blended.
\<close>

theorem billboard_depth_two_planes:
  assumes "path_exists h w p" and "images_load_result h p = Inr (wd, ht)" and "ht \<noteq> 0"
    and "w' = snd (create_billboard_character h p out ''billboard-depth'' (1 / 10) w)"
    and "aspect = real_of_int wd / real_of_int ht"
  shows "objects w' = objects w @
           [\<lparr>obj_name = Some ''CharacterBillboard'', obj_shape = Plane, obj_dim = 2,
             obj_location = (0, 0, 0), obj_scale = (aspect, 1, 1),
             obj_materials = [length (materials w)], obj_uv_unwrap = None\<rparr>,
            \<lparr>obj_name = Some ''CharacterShadow'', obj_shape = Plane, obj_dim = 2,
             obj_location = (0, - (1 / 10), 0), obj_scale = (aspect * (105 / 100), 105 / 100, 1),
             obj_materials = [length (materials w) + 1], obj_uv_unwrap = None\<rparr>]
       \<and> materials w' = materials w @
           [\<lparr>mat_name = ''CharacterMaterial'', use_nodes = True,
             tex_image = Some (length (images w)),
             links = [(''Color'', ''Base Color''), (''Alpha'', ''Alpha'')],
             base_color_default = None, alpha_default = None, emission_strength = None,
             blend_method = ''BLEND''\<rparr>,
            \<lparr>mat_name = ''CharacterShadowMaterial'', use_nodes = True,
             tex_image = None, links = [],
             base_color_default = Some (0, 0, 0, 1), alpha_default = Some (3 / 10),
             emission_strength = None, blend_method = ''BLEND''\<rparr>]
       \<and> images w' = images w @
           [\<lparr>img_id = length (images w), img_filepath = p, img_size = (wd, ht)\<rparr>]"
  unfolding assms(4,5)
  by (simp add: create_billboard_character_loaded [OF assms(1-3)] Let_def export_and_report_keeps
        add_billboard_eq add_shadow_eq billboard_plane_def primitive_def textured_material_def
        shadow_material_def node_material_def)


text \<open>The theorem at the concrete host, from the empty world (aspect 2).\<close>

theorem billboard_depth_two_planes_witness:
  "path_exists test_host empty_world ''sprite.png''
   \<and> images_load_result test_host ''sprite.png'' = Inr (800, 400)
   \<and> (400 :: int) \<noteq> 0
   \<and> map obj_name (objects (snd (create_billboard_character test_host ''sprite.png'' ''out.glb''
                                   ''billboard-depth'' (1 / 10) empty_world))) =
       [Some ''CharacterBillboard'', Some ''CharacterShadow'']
   \<and> map obj_location (objects (snd (create_billboard_character test_host ''sprite.png'' ''out.glb''
                                   ''billboard-depth'' (1 / 10) empty_world))) =
       [(0, 0, 0), (0, - (1 / 10), 0)]
   \<and> map obj_scale (objects (snd (create_billboard_character test_host ''sprite.png'' ''out.glb''
                                   ''billboard-depth'' (1 / 10) empty_world))) =
       [(2, 1, 1), (21 / 10, 21 / 20, 1)]
   \<and> map alpha_default (materials (snd (create_billboard_character test_host ''sprite.png'' ''out.glb''
                                   ''billboard-depth'' (1 / 10) empty_world))) =
       [None, Some (3 / 10)]"
proof -
  have nz: "(400 :: int) \<noteq> 0" by simp
  show ?thesis
    using billboard_depth_two_planes [OF test_host_sprite(1,2) nz refl refl, of "''out.glb''"]
      test_host_sprite(1,2)
    by (simp add: empty_world_def)
qed

text \<open>
  Claim C6. With the method \<open>capsule\<close>, \<open>create_billboard_character\<close> adds a body and a
  billboard. The body is a UV sphere of radius 0.5 (an ellipsoid once scaled) with scale
  \<open>(aspect * 0.6, 0.6, 1)\<close> at \<open>(0, 0, 0.5)\<close>, above the origin; its material links the
  colour of the sprite texture to the base colour and to the emission colour, with emission
  strength 0.5 (and links the alpha, blend mode BLEND). The billboard is a plane with scale
  \<open>(aspect, 1, 1)\<close> at \<open>(0, 0.1, 0.5)\<close>, with a material of its own: alpha-blended, with the
  sprite texture as base colour and alpha.
\<close>

theorem capsule_body_and_billboard:
  assumes "path_exists h w p" and "images_load_result h p = Inr (wd, ht)" and "ht \<noteq> 0"
    and "w' = snd (create_billboard_character h p out ''capsule'' d w)"
    and "aspect = real_of_int wd / real_of_int ht"
  shows "objects w' = objects w @
           [\<lparr>obj_name = Some ''CharacterBody'', obj_shape = UVSphere, obj_dim = 1 / 2,
             obj_location = (0, 0, 1 / 2), obj_scale = (aspect * (6 / 10), 6 / 10, 1),
             obj_materials = [length (materials w)], obj_uv_unwrap = None\<rparr>,
            \<lparr>obj_name = Some ''CharacterSprite'', obj_shape = Plane, obj_dim = 2,
             obj_location = (0, 1 / 10, 1 / 2), obj_scale = (aspect, 1, 1),
             obj_materials = [length (materials w) + 1], obj_uv_unwrap = None\<rparr>]
       \<and> materials w' = materials w @
           [\<lparr>mat_name = ''CharacterMaterial'', use_nodes = True,
             tex_image = Some (length (images w)),
             links = [(''Color'', ''Base Color''), (''Color'', ''Emission Color''),
                      (''Alpha'', ''Alpha'')],
             base_color_default = None, alpha_default = None, emission_strength = Some (1 / 2),
             blend_method = ''BLEND''\<rparr>,
            \<lparr>mat_name = ''CharacterSpriteMaterial'', use_nodes = True,
             tex_image = Some (length (images w)),
             links = [(''Color'', ''Base Color''), (''Alpha'', ''Alpha'')],
             base_color_default = None, alpha_default = None, emission_strength = None,
             blend_method = ''BLEND''\<rparr>]
       \<and> images w' = images w @
           [\<lparr>img_id = length (images w), img_filepath = p, img_size = (wd, ht)\<rparr>]"
  unfolding assms(4,5)
  by (simp add: create_billboard_character_loaded [OF assms(1-3)] Let_def export_and_report_keeps
        add_capsule_eq billboard_plane_def primitive_def textured_material_def
        body_material_def node_material_def)


text \<open>The theorem at the concrete host, from the empty world (aspect 2).\<close>

theorem capsule_body_and_billboard_witness:
  "path_exists test_host empty_world ''sprite.png''
   \<and> images_load_result test_host ''sprite.png'' = Inr (800, 400)
   \<and> (400 :: int) \<noteq> 0
   \<and> map obj_shape (objects (snd (create_billboard_character test_host ''sprite.png'' ''out.glb''
                                   ''capsule'' (1 / 10) empty_world))) = [UVSphere, Plane]
   \<and> map obj_scale (objects (snd (create_billboard_character test_host ''sprite.png'' ''out.glb''
                                   ''capsule'' (1 / 10) empty_world))) =
       [(6 / 5, 3 / 5, 1), (2, 1, 1)]
   \<and> map obj_location (objects (snd (create_billboard_character test_host ''sprite.png'' ''out.glb''
                                   ''capsule'' (1 / 10) empty_world))) =
       [(0, 0, 1 / 2), (0, 1 / 10, 1 / 2)]
   \<and> map emission_strength (materials (snd (create_billboard_character test_host ''sprite.png''
                                   ''out.glb'' ''capsule'' (1 / 10) empty_world))) =
       [Some (1 / 2), None]"
proof -
  have nz: "(400 :: int) \<noteq> 0" by simp
  show ?thesis
    using capsule_body_and_billboard [OF test_host_sprite(1,2) nz refl refl, of "''out.glb''" "1 / 10"]
      test_host_sprite(1,2)
    by (simp add: empty_world_def)
qed

section \<open>The alpha link of the Voxel materials (claim C9)\<close>

text \<open>
  Claim C9. In the Voxel branch of \<open>convert_sprite_to_3d\<close> (the quick-convert script) and of
  the add-on operator, each of the 8 materials, one per layer, has exactly one link, from the
  colour of the texture to the base colour: no link starts at the texture's alpha output or
  ends at the material's alpha input, although the blend mode is BLEND. The Voxel branch of
  \<open>create_3d_from_sprite\<close> makes both links, colour and alpha.
\<close>

theorem voxel_alpha_links:
  assumes "path_exists h w p" and "images_load_result h p = Inr (wd, ht)" and "ht \<noteq> 0"
    and "w1 = snd (convert_sprite_to_3d h p out d ''voxel'' w)"
    and "w2 = snd (execute h (ConvertSpriteTo3D p d' (Some VOXEL)) w)"
    and "w3 = snd (create_3d_from_sprite h p out d ''voxel'' w)"
  shows "map links (new_materials w w1) = replicate 8 [(''Color'', ''Base Color'')]
       \<and> map blend_method (new_materials w w1) = replicate 8 ''BLEND''
       \<and> map obj_materials (objects w1) = map (\<lambda>i. [length (materials w) + i]) [0..<8]
       \<and> map links (new_materials w w2) = replicate 8 [(''Color'', ''Base Color'')]
       \<and> map blend_method (new_materials w w2) = replicate 8 ''BLEND''
       \<and> map obj_materials (new_objects w w2) = map (\<lambda>i. [length (materials w) + i]) [0..<8]
       \<and> (\<forall>m \<in> set (new_materials w w1) \<union> set (new_materials w w2).
             \<forall>l \<in> set (links m). fst l \<noteq> ''Alpha'' \<and> snd l \<noteq> ''Alpha'')
       \<and> map links (new_materials w w3) =
             replicate 8 [(''Color'', ''Base Color''), (''Alpha'', ''Alpha'')]
       \<and> map blend_method (new_materials w w3) = replicate 8 ''BLEND''"
proof -
  let ?op = "ConvertSpriteTo3D p d' (Some VOXEL)"
  have op: "op_filepath ?op = p" "op_method ?op = VOXEL"
    by (simp_all add: ConvertSpriteTo3D_def)
  note a = convert_voxel_world [OF assms(1-3), of out d]
  note b = execute_voxel_world [OF assms(1-3) op]
  note c = create_3d_voxel_world [OF assms(1-3), of out d]
  have eight: "replicate 8 x = [x, x, x, x, x, x, x, x]" for x :: 'a
    by (simp add: numeral_eq_Suc)
  have upt8: "[0..<8] = [0, 1, 2, 3, 4, 5, 6, 7]"
    by (simp add: upt_rec)
  show ?thesis
    unfolding assms(4-6)
    by (simp add: a b c new_objects_def new_materials_def upt_layers eight upt8
          voxel_plane_def voxel_material_def primitive_def node_material_def)
qed


text \<open>The theorem at the concrete host, from the empty world.\<close>

theorem voxel_alpha_links_witness:
  "path_exists test_host empty_world ''sprite.png''
   \<and> images_load_result test_host ''sprite.png'' = Inr (800, 400)
   \<and> (400 :: int) \<noteq> 0
   \<and> map links (materials (snd (convert_sprite_to_3d test_host ''sprite.png'' ''out/m.glb'' (1 / 2)
                                 ''voxel'' empty_world))) = replicate 8 [(''Color'', ''Base Color'')]
   \<and> map links (materials (snd (execute test_host (ConvertSpriteTo3D ''sprite.png'' None (Some VOXEL))
                                 empty_world))) = replicate 8 [(''Color'', ''Base Color'')]
   \<and> map links (materials (snd (create_3d_from_sprite test_host ''sprite.png'' ''out/m.glb'' (1 / 2)
                                 ''voxel'' empty_world))) =
       replicate 8 [(''Color'', ''Base Color''), (''Alpha'', ''Alpha'')]"
proof -
  have nz: "(400 :: int) \<noteq> 0" by simp
  have e: "materials empty_world = []" by (simp add: empty_world_def)
  note t = voxel_alpha_links [OF test_host_sprite(1,2) nz refl refl refl,
      of "''out/m.glb''" "1 / 2" None]
  from t have
    "map links (new_materials empty_world (snd (convert_sprite_to_3d test_host ''sprite.png''
        ''out/m.glb'' (1 / 2) ''voxel'' empty_world))) = replicate 8 [(''Color'', ''Base Color'')]"
    "map links (new_materials empty_world (snd (execute test_host
        (ConvertSpriteTo3D ''sprite.png'' None (Some VOXEL)) empty_world))) =
       replicate 8 [(''Color'', ''Base Color'')]"
    "map links (new_materials empty_world (snd (create_3d_from_sprite test_host ''sprite.png''
        ''out/m.glb'' (1 / 2) ''voxel'' empty_world))) =
       replicate 8 [(''Color'', ''Base Color''), (''Alpha'', ''Alpha'')]"
    by blast+
  then show ?thesis
    using test_host_sprite(1,2) by (simp add: new_materials_def e)
qed

section \<open>A sprite path that does not exist (claim C7)\<close>

text \<open>
  Claim C7. When the sprite path does not exist, every conversion fails with its not-found
  error and produces no output file: \<open>create_3d_from_sprite\<close>, \<open>convert_sprite_to_3d\<close>
  and \<open>create_billboard_character\<close> print their "not found" line and return \<open>False\<close>
  (\<open>load_sprite_image\<close> returns \<open>None\<close>), the operator reports the error and returns
  \<open>CANCELLED\<close>; nothing is loaded, built or exported, and the files written are the ones
  there were. The scripts signal the error by this return value and message, not by raising.
\<close>

theorem missing_sprite_fails:
  assumes "\<not> path_exists h w p"
  shows "create_3d_from_sprite h p out d m w =
           (Inr False, py_print (''Error: Image not found: '' @ p) (py_print (''Loading sprite: '' @ p) w))
       \<and> convert_sprite_to_3d h p out d m w =
           (Inr False, py_print (''ERROR: File not found: '' @ p) (clear_scene w))
       \<and> load_sprite_image h p w = (Inr None, py_print (''Error: Image not found: '' @ p) w)
       \<and> create_billboard_character h p out m d w =
           (Inr False, py_print (''Error: Image not found: '' @ p)
                         (py_print (''Loading character sprite: '' @ p) w))
       \<and> execute h (ConvertSpriteTo3D p d' m') w =
           (Inr CANCELLED, report ''ERROR'' (''File not found: '' @ p) w)
       \<and> files (snd (create_3d_from_sprite h p out d m w)) = files w
       \<and> files (snd (convert_sprite_to_3d h p out d m w)) = files w
       \<and> files (snd (create_billboard_character h p out m d w)) = files w
       \<and> files (snd (execute h (ConvertSpriteTo3D p d' m') w)) = files w"
proof -
  have a: "create_3d_from_sprite h p out d m w =
           (Inr False, py_print (''Error: Image not found: '' @ p) (py_print (''Loading sprite: '' @ p) w))"
    using assms by (simp add: create_3d_from_sprite_def Let_def)
  have b: "convert_sprite_to_3d h p out d m w =
           (Inr False, py_print (''ERROR: File not found: '' @ p) (clear_scene w))"
    using assms by (simp add: convert_sprite_to_3d_def Let_def)
  have c': "load_sprite_image h p (py_print s w) =
              (Inr None, py_print (''Error: Image not found: '' @ p) (py_print s w))" for s
    using assms by (simp add: load_sprite_image_def)
  have e: "create_billboard_character h p out m d w =
           (Inr False, py_print (''Error: Image not found: '' @ p)
                         (py_print (''Loading character sprite: '' @ p) w))"
    unfolding create_billboard_character_def c' by simp
  have f: "execute h (ConvertSpriteTo3D p d' m') w =
           (Inr CANCELLED, report ''ERROR'' (''File not found: '' @ p) w)"
    using assms by (simp add: execute_def ConvertSpriteTo3D_def)
  have g: "load_sprite_image h p w = (Inr None, py_print (''Error: Image not found: '' @ p) w)"
    using assms by (simp add: load_sprite_image_def)
  show ?thesis
    unfolding a b e f g by simp
qed


text \<open>The theorem at the concrete host, for a path it does not have.\<close>

theorem missing_sprite_fails_witness:
  "\<not> path_exists test_host empty_world ''nothing.png''
   \<and> fst (create_3d_from_sprite test_host ''nothing.png'' ''out.glb'' (1 / 2) ''extrude'' empty_world)
       = Inr False
   \<and> stdout (snd (create_3d_from_sprite test_host ''nothing.png'' ''out.glb'' (1 / 2) ''extrude''
                     empty_world))
       = [''Loading sprite: nothing.png'', ''Error: Image not found: nothing.png'']
   \<and> files (snd (create_3d_from_sprite test_host ''nothing.png'' ''out.glb'' (1 / 2) ''extrude''
                    empty_world)) = []
   \<and> fst (create_billboard_character test_host ''nothing.png'' ''out.glb'' ''capsule'' (1 / 10)
            empty_world) = Inr False
   \<and> files (snd (create_billboard_character test_host ''nothing.png'' ''out.glb'' ''capsule'' (1 / 10)
                    empty_world)) = []"
proof -
  have n: "\<not> path_exists test_host empty_world ''nothing.png''"
    by (simp add: path_exists_def test_host_def empty_world_def)
  show ?thesis
    using missing_sprite_fails [OF n, of "''out.glb''" "1 / 2" "''extrude''" None None]
          missing_sprite_fails [OF n, of "''out.glb''" "1 / 10" "''capsule''" None None] n
    by (simp add: empty_world_def)
qed

section \<open>An output path without a directory (claim C10)\<close>

text \<open>
  Claim C10. When \<open>os.path.dirname\<close> of the output path is the empty string (a bare file
  name), \<open>convert_sprite_to_3d\<close> never exports and never returns \<open>True\<close>. Once the sprite is
  found and loaded, with a height that is not zero, the call \<open>os.makedirs('', exist_ok=True)\<close>
  raises FileNotFoundError, which nothing catches, although the objects and materials of the
  chosen method have been built by then: one cube and one material for Extrude, 8 planes and
  8 materials for Voxel.
\<close>

theorem bare_filename_raises:
  assumes "os_path_dirname h out = []"
  shows "fst (convert_sprite_to_3d h p out d m w) \<noteq> Inr True
       \<and> files (snd (convert_sprite_to_3d h p out d m w)) = files w
       \<and> (path_exists h w p \<and> images_load_result h p = Inr (wd, ht) \<and> ht \<noteq> 0 \<longrightarrow>
            fst (convert_sprite_to_3d h p out d m w) = Inl FileNotFoundError
          \<and> (m = ''extrude'' \<longrightarrow>
                objects (snd (convert_sprite_to_3d h p out d m w)) =
                  [extrude_cube (Some ''Sprite3D'') (real_of_int wd / real_of_int ht) d
                     (length (materials w))]
              \<and> length (materials (snd (convert_sprite_to_3d h p out d m w))) =
                  length (materials w) + 1)
          \<and> (m = ''voxel'' \<longrightarrow>
                length (objects (snd (convert_sprite_to_3d h p out d m w))) = 8
              \<and> length (materials (snd (convert_sprite_to_3d h p out d m w))) =
                  length (materials w) + 8))"
proof -
  have a: "fst (convert_sprite_to_3d h p out d m w) \<noteq> Inr True"
    by (simp add: convert_sprite_to_3d_def images_load_def truediv_def Let_def assms
          os_makedirs_empty split: sum.splits prod.splits)
  have b: "files (snd (convert_sprite_to_3d h p out d m w)) = files w"
    by (simp add: convert_sprite_to_3d_def images_load_def truediv_def Let_def assms
          os_makedirs_empty split: sum.splits prod.splits)
  have c: "fst (convert_sprite_to_3d h p out d m w) = Inl FileNotFoundError
          \<and> (m = ''extrude'' \<longrightarrow>
                objects (snd (convert_sprite_to_3d h p out d m w)) =
                  [extrude_cube (Some ''Sprite3D'') (real_of_int wd / real_of_int ht) d
                     (length (materials w))]
              \<and> length (materials (snd (convert_sprite_to_3d h p out d m w))) =
                  length (materials w) + 1)
          \<and> (m = ''voxel'' \<longrightarrow>
                length (objects (snd (convert_sprite_to_3d h p out d m w))) = 8
              \<and> length (materials (snd (convert_sprite_to_3d h p out d m w))) =
                  length (materials w) + 8)"
    if l: "path_exists h w p" "images_load_result h p = Inr (wd, ht)" "ht \<noteq> 0"
    by (simp add: convert_sprite_to_3d_loaded [OF l] Let_def assms os_makedirs_empty
          quick_extrude_eq voxel_layers_eq layers_def)
  show ?thesis
    using a b c by blast
qed


text \<open>
  The theorem at the concrete host, whose \<open>dirname\<close> is the POSIX one, for the output path
  \<open>model.glb\<close>.
\<close>

theorem bare_filename_raises_witness:
  "os_path_dirname test_host ''model.glb'' = []
   \<and> path_exists test_host empty_world ''sprite.png''
   \<and> images_load_result test_host ''sprite.png'' = Inr (800, 400)
   \<and> (400 :: int) \<noteq> 0
   \<and> fst (convert_sprite_to_3d test_host ''sprite.png'' ''model.glb'' (1 / 2) ''voxel'' empty_world)
       = Inl FileNotFoundError
   \<and> files (snd (convert_sprite_to_3d test_host ''sprite.png'' ''model.glb'' (1 / 2) ''voxel''
                    empty_world)) = []
   \<and> length (objects (snd (convert_sprite_to_3d test_host ''sprite.png'' ''model.glb'' (1 / 2)
                              ''voxel'' empty_world))) = 8
   \<and> fst (convert_sprite_to_3d test_host ''sprite.png'' ''model.glb'' (1 / 2) ''extrude'' empty_world)
       = Inl FileNotFoundError
   \<and> files (snd (convert_sprite_to_3d test_host ''sprite.png'' ''model.glb'' (1 / 2) ''extrude''
                    empty_world)) = []
   \<and> map obj_scale (objects (snd (convert_sprite_to_3d test_host ''sprite.png'' ''model.glb'' (1 / 2)
                              ''extrude'' empty_world))) = [(2, 1, 1 / 2)]"
proof -
  have dn: "os_path_dirname test_host ''model.glb'' = []"
    by (simp add: test_host_def posix_dirname_def)
  have nz: "(400 :: int) \<noteq> 0" by simp
  show ?thesis
    using bare_filename_raises [OF dn, of "''sprite.png''" "1 / 2" "''voxel''" empty_world 800 400]
      bare_filename_raises [OF dn, of "''sprite.png''" "1 / 2" "''extrude''" empty_world 800 400]
      dn test_host_sprite(1,2)
    by (simp add: empty_world_def extrude_cube_def primitive_def)
qed

section \<open>The range of the depth (claim C8)\<close>

text \<open>
  Claim C8, as amended. Only the add-on operator bounds the depth: its property is declared
  with \<open>min=0.1\<close> and \<open>max=2.0\<close>, so the depth it works with is the given value clamped
  into \<open>[0.1, 2.0]\<close>, and that is the depth of the cube it builds. The other entry points
  make no test of the range: \<open>main\<close> of blender-sprite-to-3d.py and of
  blender-character-to-3d.py use whatever \<open>float\<close> makes of the depth argument, and
  \<open>convert_sprite_to_3d\<close> its parameter, as given. The cube of Extrude has that depth as
  its third scale, the shadow plane of \<open>billboard-depth\<close> sits at \<open>y = -depth\<close>.
\<close>

theorem depth_range_only_in_operator:
  assumes "script_args argv1 = [s, out, ds]"
    and "script_args argv2 = [s, out, ''billboard-depth'', ds]"
    and "float_result h ds = Some x"
    and "fst (ensure_output_dir h out w) = Inr ()"
    and "path_exists h w s" and "images_load_result h s = Inr (wd, ht)" and "ht \<noteq> 0"
    and "aspect = real_of_int wd / real_of_int ht"
  shows "map obj_scale (new_objects w (snd (sprite_to_3d_main h argv1 w))) = [(aspect, 1, x)]
       \<and> map obj_location (new_objects w (snd (character_to_3d_main h argv2 w))) =
           [(0, 0, 0), (0, - x, 0)]
       \<and> map obj_scale (objects (snd (convert_sprite_to_3d h s out x ''extrude'' w))) =
           [(aspect, 1, x)]
       \<and> op_depth (ConvertSpriteTo3D s (Some x) m) =
           (if x < 1 / 10 then 1 / 10 else if 2 < x then 2 else x)
       \<and> 1 / 10 \<le> op_depth (ConvertSpriteTo3D s (Some x) m)
       \<and> op_depth (ConvertSpriteTo3D s (Some x) m) \<le> 2
       \<and> map obj_scale (new_objects w (snd (execute h (ConvertSpriteTo3D s (Some x) (Some EXTRUDE)) w)))
           = [(aspect, 1, op_depth (ConvertSpriteTo3D s (Some x) (Some EXTRUDE)))]"
proof -
  obtain u w1 where e: "ensure_output_dir h out w = (u, w1)"
    by (cases "ensure_output_dir h out w")
  have u: "u = Inr ()" using assms(4) by (simp add: e)
  have w1: "objects w1 = objects w" "materials w1 = materials w"
    using ensure_output_dir_keeps(1,2) [of h out w] by (simp_all add: e)
  have p1: "path_exists h w1 s"
    using ensure_output_dir_exists [OF assms(5), of out] by (simp add: e)
  have fl: "py_float h ds = Inr x"
    by (simp add: py_float_def assms(3))
  have a: "sprite_to_3d_main h argv1 w = exit_with (create_3d_from_sprite h s out x ''extrude'' w1)"
    by (simp add: sprite_to_3d_main_args [OF assms(1)] fl e u)
  have b: "character_to_3d_main h argv2 w =
             exit_with (create_billboard_character h s out ''billboard-depth'' x w1)"
    by (simp add: character_to_3d_main_args [OF assms(2)] fl e u)
  have A: "map obj_scale (new_objects w (snd (sprite_to_3d_main h argv1 w))) = [(aspect, 1, x)]"
    unfolding a
    by (simp add: create_3d_extrude_world(1) [OF p1 assms(6,7)] new_objects_def w1
          extrude_cube_def primitive_def assms(8))
  have B: "map obj_location (new_objects w (snd (character_to_3d_main h argv2 w))) =
           [(0, 0, 0), (0, - x, 0)]"
    unfolding b
    by (simp add: create_billboard_character_loaded [OF p1 assms(6,7)] Let_def
          export_and_report_keeps add_billboard_eq add_shadow_eq new_objects_def w1
          billboard_plane_def primitive_def)
  have C: "map obj_scale (objects (snd (convert_sprite_to_3d h s out x ''extrude'' w))) =
           [(aspect, 1, x)]"
    by (simp add: convert_extrude_world(1) [OF assms(5-7)] extrude_cube_def primitive_def assms(8))
  have D: "op_depth (ConvertSpriteTo3D s (Some x) m) =
           (if x < 1 / 10 then 1 / 10 else if 2 < x then 2 else x)" for m
    by (simp add: ConvertSpriteTo3D_def float_property_set_def depth_property_def max_def min_def)
  let ?op = "ConvertSpriteTo3D s (Some x) (Some EXTRUDE)"
  have op: "op_filepath ?op = s" "op_method ?op = EXTRUDE"
    by (simp_all add: ConvertSpriteTo3D_def)
  have E: "map obj_scale (new_objects w (snd (execute h ?op w))) = [(aspect, 1, op_depth ?op)]"
    by (simp add: execute_extrude_world(1) [OF assms(5-7) op] new_objects_def
          extrude_cube_def primitive_def assms(8))
  show ?thesis
    using A B C D [of m] E by simp
qed


text \<open>
  The theorem at the concrete host for the depth 5.0, which is out of range: the scripts use
  5, the operator 2.
\<close>

theorem depth_range_only_in_operator_witness:
  "script_args [''blender'', ''--'', ''sprite.png'', ''out.glb'', ''5.0''] =
     [''sprite.png'', ''out.glb'', ''5.0'']
   \<and> script_args [''blender'', ''--'', ''sprite.png'', ''out.glb'', ''billboard-depth'', ''5.0''] =
     [''sprite.png'', ''out.glb'', ''billboard-depth'', ''5.0'']
   \<and> float_result test_host ''5.0'' = Some 5
   \<and> fst (ensure_output_dir test_host ''out.glb'' empty_world) = Inr ()
   \<and> path_exists test_host empty_world ''sprite.png''
   \<and> images_load_result test_host ''sprite.png'' = Inr (800, 400)
   \<and> (400 :: int) \<noteq> 0
   \<and> map obj_scale (objects (snd (sprite_to_3d_main test_host
         [''blender'', ''--'', ''sprite.png'', ''out.glb'', ''5.0''] empty_world))) = [(2, 1, 5)]
   \<and> map obj_location (objects (snd (character_to_3d_main test_host
         [''blender'', ''--'', ''sprite.png'', ''out.glb'', ''billboard-depth'', ''5.0'']
         empty_world))) = [(0, 0, 0), (0, - 5, 0)]
   \<and> map obj_scale (objects (snd (execute test_host
         (ConvertSpriteTo3D ''sprite.png'' (Some 5) (Some EXTRUDE)) empty_world))) = [(2, 1, 2)]"
proof -
  have a1: "script_args [''blender'', ''--'', ''sprite.png'', ''out.glb'', ''5.0''] =
     [''sprite.png'', ''out.glb'', ''5.0'']"
    by (simp add: script_args_def)
  have a2: "script_args [''blender'', ''--'', ''sprite.png'', ''out.glb'', ''billboard-depth'', ''5.0''] =
     [''sprite.png'', ''out.glb'', ''billboard-depth'', ''5.0'']"
    by (simp add: script_args_def)
  have fl: "float_result test_host ''5.0'' = Some 5"
    by (simp add: test_host_def)
  have en: "fst (ensure_output_dir test_host ''out.glb'' empty_world) = Inr ()"
    by (simp add: ensure_output_dir_def os_makedirs_def test_host_def posix_dirname_def)
  have nz: "(400 :: int) \<noteq> 0" by simp
  have e: "objects empty_world = []" by (simp add: empty_world_def)
  note t = depth_range_only_in_operator [OF a1 a2 fl en test_host_sprite(1,2) nz refl,
      of "Some EXTRUDE"]
  show ?thesis
    using t a1 a2 fl en test_host_sprite(1,2)
    by (simp add: new_objects_def e)
qed

text \<open>
  Claim C8 as the specification states it fails: blender-sprite-to-3d.py, given the depth
  5.0, neither clamps nor rejects it. It builds a cube of depth 5, exports it and exits with
  code 0.
\<close>

theorem depth_out_of_range_counterexample:
  "fst (sprite_to_3d_main test_host [''blender'', ''--'', ''sprite.png'', ''out.glb'', ''5.0'']
          empty_world) = Exit 0
   \<and> map obj_scale (objects (snd (sprite_to_3d_main test_host
         [''blender'', ''--'', ''sprite.png'', ''out.glb'', ''5.0''] empty_world))) = [(2, 1, 5)]
   \<and> files (snd (sprite_to_3d_main test_host
         [''blender'', ''--'', ''sprite.png'', ''out.glb'', ''5.0''] empty_world)) =
       [(''out.glb'', objects (snd (sprite_to_3d_main test_host
         [''blender'', ''--'', ''sprite.png'', ''out.glb'', ''5.0''] empty_world)))]
   \<and> \<not> (1 / 10 \<le> (5 :: real) \<and> (5 :: real) \<le> 2)"
proof -
  have a1: "script_args [''blender'', ''--'', ''sprite.png'', ''out.glb'', ''5.0''] =
     [''sprite.png'', ''out.glb'', ''5.0'']"
    by (simp add: script_args_def)
  have fl: "py_float test_host ''5.0'' = Inr 5"
    by (simp add: py_float_def test_host_def)
  have en: "ensure_output_dir test_host ''out.glb'' empty_world =
              (Inr (), empty_world\<lparr>dirs := [''.'']\<rparr>)"
    by (simp add: ensure_output_dir_def os_makedirs_def test_host_def posix_dirname_def
          empty_world_def)
  have p1: "path_exists test_host (empty_world\<lparr>dirs := [''.'']\<rparr>) ''sprite.png''"
    by (simp add: path_exists_def test_host_def)
  have nz: "(400 :: int) \<noteq> 0" by simp
  have g: "gltf_result test_host q obs = None" for q obs
    by (rule test_host_exporter)
  have run: "sprite_to_3d_main test_host [''blender'', ''--'', ''sprite.png'', ''out.glb'', ''5.0'']
          empty_world =
        exit_with (create_3d_from_sprite test_host ''sprite.png'' ''out.glb'' 5 ''extrude''
                     (empty_world\<lparr>dirs := [''.'']\<rparr>))"
    by (simp add: sprite_to_3d_main_args [OF a1] fl en)
  show ?thesis
    unfolding run create_3d_from_sprite_loaded [OF p1 test_host_sprite(2) nz]
    by (simp add: Let_def sprite_extrude_eq [OF test_host_sprite(2)] export_and_report_accepted g
          extrude_cube_def primitive_def)
       (simp add: empty_world_def)
qed

section \<open>A method that no branch tests for (claim C2)\<close>

text \<open>
  Claim C2, as amended. For a method string other than the ones the function tests for
  (\<open>extrude\<close> and \<open>voxel\<close> in \<open>create_3d_from_sprite\<close>; \<open>billboard\<close>, \<open>billboard-depth\<close> and
  \<open>capsule\<close> in \<open>create_billboard_character\<close>), the conversion raises no error for the
  method. Whatever the sprite, it adds no object and no material to the scene, and the
  method string plays no further part: every such string gives the same result. When the
  sprite exists and loads, with a height that is not zero, the conversion goes on to the
  export as for a known method and does not return \<open>False\<close>; when the exporter also accepts
  the call, it writes the output file with the scene as it was, prints the success line and
  returns \<open>True\<close>.
\<close>

theorem unknown_method_exports:
  assumes "m1 \<notin> {''extrude'', ''voxel''}"
    and "m2 \<notin> {''billboard'', ''billboard-depth'', ''capsule''}"
    and "r1 = create_3d_from_sprite h p out d m1 w"
    and "r2 = create_billboard_character h p out m2 d w"
  shows "objects (snd r1) = objects w \<and> materials (snd r1) = materials w
       \<and> objects (snd r2) = objects w \<and> materials (snd r2) = materials w
       \<and> (\<forall>m. m \<notin> {''extrude'', ''voxel''} \<longrightarrow> create_3d_from_sprite h p out d m w = r1)
       \<and> (\<forall>m. m \<notin> {''billboard'', ''billboard-depth'', ''capsule''} \<longrightarrow>
              create_billboard_character h p out m d w = r2)
       \<and> (path_exists h w p \<and> images_load_result h p = Inr (wd, ht) \<and> ht \<noteq> 0 \<longrightarrow>
            fst r1 \<noteq> Inr False \<and> fst r2 \<noteq> Inr False
          \<and> (gltf_result h ((export_params out)\<lparr>gp_export_colors := Some True\<rparr>) (objects w) = None
              \<longrightarrow> fst r1 = Inr True \<and> files (snd r1) = files w @ [(out, objects w)]
                \<and> last (stdout (snd r1)) = success_mark @ '' Successfully exported: '' @ out
                \<and> fst r2 = Inr True \<and> files (snd r2) = files w @ [(out, objects w)]
                \<and> last (stdout (snd r2)) =
                    success_mark_character @ '' Successfully exported: '' @ out))"
proof -
  have m1: "m1 \<noteq> ''extrude''" "m1 \<noteq> ''voxel''" using assms(1) by simp_all
  have m2: "m2 \<noteq> ''billboard''" "m2 \<noteq> ''billboard-depth''" "m2 \<noteq> ''capsule''"
    using assms(2) by simp_all
  have k: "objects (snd r1) = objects w" "materials (snd r1) = materials w"
      "objects (snd r2) = objects w" "materials (snd r2) = materials w"
    unfolding assms(3,4)
    by (simp_all add: create_3d_from_sprite_unknown(2,3) [OF m1]
          create_billboard_character_unknown(2,3) [OF m2])
  have i1: "create_3d_from_sprite h p out d m w = r1" if "m \<notin> {''extrude'', ''voxel''}" for m
  proof -
    have m: "m \<noteq> ''extrude''" "m \<noteq> ''voxel''" using that by simp_all
    show ?thesis
      unfolding assms(3)
      using create_3d_from_sprite_unknown(1) [OF m, of h p out d w]
        create_3d_from_sprite_unknown(1) [OF m1, of h p out d w]
      by simp
  qed
  have i2: "create_billboard_character h p out m d w = r2"
    if "m \<notin> {''billboard'', ''billboard-depth'', ''capsule''}" for m
  proof -
    have m: "m \<noteq> ''billboard''" "m \<noteq> ''billboard-depth''" "m \<noteq> ''capsule''"
      using that by simp_all
    show ?thesis
      unfolding assms(4)
      using create_billboard_character_unknown(1) [OF m, of h p out d w]
        create_billboard_character_unknown(1) [OF m2, of h p out d w]
      by simp
  qed
  have s: "fst r1 \<noteq> Inr False \<and> fst r2 \<noteq> Inr False
          \<and> (gltf_result h ((export_params out)\<lparr>gp_export_colors := Some True\<rparr>) (objects w) = None
              \<longrightarrow> fst r1 = Inr True \<and> files (snd r1) = files w @ [(out, objects w)]
                \<and> last (stdout (snd r1)) = success_mark @ '' Successfully exported: '' @ out
                \<and> fst r2 = Inr True \<and> files (snd r2) = files w @ [(out, objects w)]
                \<and> last (stdout (snd r2)) =
                    success_mark_character @ '' Successfully exported: '' @ out)"
    if l: "path_exists h w p" "images_load_result h p = Inr (wd, ht)" "ht \<noteq> 0"
  proof -
    note a = create_3d_from_sprite_loaded [OF l, of out d m1]
    note b = create_billboard_character_loaded [OF l, of out m2 d]
    have n: "fst r1 \<noteq> Inr False" "fst r2 \<noteq> Inr False"
      unfolding assms(3,4) a b
      by (simp_all add: Let_def m1 m2 export_and_report_not_False)
    have g: "fst r1 = Inr True \<and> files (snd r1) = files w @ [(out, objects w)]
                \<and> last (stdout (snd r1)) = success_mark @ '' Successfully exported: '' @ out
                \<and> fst r2 = Inr True \<and> files (snd r2) = files w @ [(out, objects w)]
                \<and> last (stdout (snd r2)) =
                    success_mark_character @ '' Successfully exported: '' @ out"
      if g: "gltf_result h ((export_params out)\<lparr>gp_export_colors := Some True\<rparr>) (objects w) = None"
      unfolding assms(3,4) a b
      by (simp add: Let_def m1 m2 export_and_report_accepted g)
    have G: "gltf_result h ((export_params out)\<lparr>gp_export_colors := Some True\<rparr>) (objects w) = None
              \<longrightarrow> fst r1 = Inr True \<and> files (snd r1) = files w @ [(out, objects w)]
                \<and> last (stdout (snd r1)) = success_mark @ '' Successfully exported: '' @ out
                \<and> fst r2 = Inr True \<and> files (snd r2) = files w @ [(out, objects w)]
                \<and> last (stdout (snd r2)) =
                    success_mark_character @ '' Successfully exported: '' @ out"
      by (intro impI) (rule g)
    show ?thesis
      using n G by (intro conjI) assumption+
  qed
  have I1: "\<forall>m. m \<notin> {''extrude'', ''voxel''} \<longrightarrow> create_3d_from_sprite h p out d m w = r1"
    by (intro allI impI) (rule i1)
  have I2: "\<forall>m. m \<notin> {''billboard'', ''billboard-depth'', ''capsule''} \<longrightarrow>
              create_billboard_character h p out m d w = r2"
    by (intro allI impI) (rule i2)
  have S: "path_exists h w p \<and> images_load_result h p = Inr (wd, ht) \<and> ht \<noteq> 0 \<longrightarrow>
            fst r1 \<noteq> Inr False \<and> fst r2 \<noteq> Inr False
          \<and> (gltf_result h ((export_params out)\<lparr>gp_export_colors := Some True\<rparr>) (objects w) = None
              \<longrightarrow> fst r1 = Inr True \<and> files (snd r1) = files w @ [(out, objects w)]
                \<and> last (stdout (snd r1)) = success_mark @ '' Successfully exported: '' @ out
                \<and> fst r2 = Inr True \<and> files (snd r2) = files w @ [(out, objects w)]
                \<and> last (stdout (snd r2)) =
                    success_mark_character @ '' Successfully exported: '' @ out)"
    by (intro impI, elim conjE) (rule s)
  show ?thesis
    using k I1 I2 S by (intro conjI) assumption+
qed

text \<open>
  The theorem at the concrete host, for the methods \<open>sphere\<close> and \<open>cone\<close>.
\<close>

theorem unknown_method_exports_witness:
  "''sphere'' \<notin> {''extrude'', ''voxel''}
   \<and> ''sphere'' \<notin> {''billboard'', ''billboard-depth'', ''capsule''}
   \<and> ''cone'' \<notin> {''extrude'', ''voxel''}
   \<and> ''cone'' \<notin> {''billboard'', ''billboard-depth'', ''capsule''}
   \<and> create_3d_from_sprite test_host ''sprite.png'' ''out.glb'' (1 / 2) ''cone'' empty_world =
       create_3d_from_sprite test_host ''sprite.png'' ''out.glb'' (1 / 2) ''sphere'' empty_world
   \<and> create_billboard_character test_host ''sprite.png'' ''out.glb'' ''cone'' (1 / 2) empty_world =
       create_billboard_character test_host ''sprite.png'' ''out.glb'' ''sphere'' (1 / 2) empty_world
   \<and> path_exists test_host empty_world ''sprite.png''
   \<and> images_load_result test_host ''sprite.png'' = Inr (800, 400)
   \<and> (400 :: int) \<noteq> 0
   \<and> gltf_result test_host ((export_params ''out.glb'')\<lparr>gp_export_colors := Some True\<rparr>)
        (objects empty_world) = None
   \<and> fst (create_3d_from_sprite test_host ''sprite.png'' ''out.glb'' (1 / 2) ''sphere'' empty_world)
       = Inr True
   \<and> objects (snd (create_3d_from_sprite test_host ''sprite.png'' ''out.glb'' (1 / 2) ''sphere''
                    empty_world)) = []
   \<and> files (snd (create_3d_from_sprite test_host ''sprite.png'' ''out.glb'' (1 / 2) ''sphere''
                    empty_world)) = [(''out.glb'', [])]
   \<and> fst (create_billboard_character test_host ''sprite.png'' ''out.glb'' ''sphere'' (1 / 2)
            empty_world) = Inr True
   \<and> objects (snd (create_billboard_character test_host ''sprite.png'' ''out.glb'' ''sphere'' (1 / 2)
                    empty_world)) = []
   \<and> files (snd (create_billboard_character test_host ''sprite.png'' ''out.glb'' ''sphere'' (1 / 2)
                    empty_world)) = [(''out.glb'', [])]"
proof -
  have m: "''sphere'' \<notin> {''extrude'', ''voxel''}"
    "''sphere'' \<notin> {''billboard'', ''billboard-depth'', ''capsule''}"
    "''cone'' \<notin> {''extrude'', ''voxel''}"
    "''cone'' \<notin> {''billboard'', ''billboard-depth'', ''capsule''}"
    by simp_all
  have nz: "(400 :: int) \<noteq> 0" by simp
  have g: "gltf_result test_host ((export_params ''out.glb'')\<lparr>gp_export_colors := Some True\<rparr>)
        (objects empty_world) = None"
    by (rule test_host_exporter)
  have e: "objects empty_world = []" "files empty_world = []"
    by (simp_all add: empty_world_def)
  note t = unknown_method_exports [OF m(1,2) refl refl, of test_host "''sprite.png''" "''out.glb''"
      "1 / 2" empty_world 800 400]
  have o: "objects (snd (create_3d_from_sprite test_host ''sprite.png'' ''out.glb'' (1 / 2) ''sphere''
                    empty_world)) = objects empty_world"
    "objects (snd (create_billboard_character test_host ''sprite.png'' ''out.glb'' ''sphere'' (1 / 2)
                    empty_world)) = objects empty_world"
    using t [THEN conjunct1] t [THEN conjunct2, THEN conjunct2, THEN conjunct1]
    by - assumption+
  have i: "\<forall>m. m \<notin> {''extrude'', ''voxel''} \<longrightarrow>
             create_3d_from_sprite test_host ''sprite.png'' ''out.glb'' (1 / 2) m empty_world =
             create_3d_from_sprite test_host ''sprite.png'' ''out.glb'' (1 / 2) ''sphere'' empty_world"
    "\<forall>m. m \<notin> {''billboard'', ''billboard-depth'', ''capsule''} \<longrightarrow>
             create_billboard_character test_host ''sprite.png'' ''out.glb'' m (1 / 2) empty_world =
             create_billboard_character test_host ''sprite.png'' ''out.glb'' ''sphere'' (1 / 2) empty_world"
    using t [THEN conjunct2, THEN conjunct2, THEN conjunct2, THEN conjunct2, THEN conjunct1]
      t [THEN conjunct2, THEN conjunct2, THEN conjunct2, THEN conjunct2, THEN conjunct2,
         THEN conjunct1]
    by - assumption+
  have c: "create_3d_from_sprite test_host ''sprite.png'' ''out.glb'' (1 / 2) ''cone'' empty_world =
       create_3d_from_sprite test_host ''sprite.png'' ''out.glb'' (1 / 2) ''sphere'' empty_world"
    "create_billboard_character test_host ''sprite.png'' ''out.glb'' ''cone'' (1 / 2) empty_world =
       create_billboard_character test_host ''sprite.png'' ''out.glb'' ''sphere'' (1 / 2) empty_world"
    using i(1) [rule_format, OF m(3)] i(2) [rule_format, OF m(4)] by - assumption+
  have l: "path_exists test_host empty_world ''sprite.png''
           \<and> images_load_result test_host ''sprite.png'' = Inr (800, 400) \<and> (400 :: int) \<noteq> 0"
    using test_host_sprite(1,2) nz by simp
  have x: "fst (create_3d_from_sprite test_host ''sprite.png'' ''out.glb'' (1 / 2) ''sphere'' empty_world)
       = Inr True
     \<and> files (snd (create_3d_from_sprite test_host ''sprite.png'' ''out.glb'' (1 / 2) ''sphere''
                    empty_world)) = files empty_world @ [(''out.glb'', objects empty_world)]
     \<and> last (stdout (snd (create_3d_from_sprite test_host ''sprite.png'' ''out.glb'' (1 / 2) ''sphere''
                    empty_world))) = success_mark @ '' Successfully exported: '' @ ''out.glb''
     \<and> fst (create_billboard_character test_host ''sprite.png'' ''out.glb'' ''sphere'' (1 / 2)
            empty_world) = Inr True
     \<and> files (snd (create_billboard_character test_host ''sprite.png'' ''out.glb'' ''sphere'' (1 / 2)
                    empty_world)) = files empty_world @ [(''out.glb'', objects empty_world)]
     \<and> last (stdout (snd (create_billboard_character test_host ''sprite.png'' ''out.glb'' ''sphere''
                    (1 / 2) empty_world))) =
           success_mark_character @ '' Successfully exported: '' @ ''out.glb''"
    using t [THEN conjunct2, THEN conjunct2, THEN conjunct2, THEN conjunct2, THEN conjunct2,
             THEN conjunct2, THEN mp, OF l, THEN conjunct2, THEN conjunct2, THEN mp, OF g] .
  have r: "fst (create_3d_from_sprite test_host ''sprite.png'' ''out.glb'' (1 / 2) ''sphere'' empty_world)
       = Inr True"
    "objects (snd (create_3d_from_sprite test_host ''sprite.png'' ''out.glb'' (1 / 2) ''sphere''
                    empty_world)) = []"
    "files (snd (create_3d_from_sprite test_host ''sprite.png'' ''out.glb'' (1 / 2) ''sphere''
                    empty_world)) = [(''out.glb'', [])]"
    "fst (create_billboard_character test_host ''sprite.png'' ''out.glb'' ''sphere'' (1 / 2)
            empty_world) = Inr True"
    "objects (snd (create_billboard_character test_host ''sprite.png'' ''out.glb'' ''sphere'' (1 / 2)
                    empty_world)) = []"
    "files (snd (create_billboard_character test_host ''sprite.png'' ''out.glb'' ''sphere'' (1 / 2)
                    empty_world)) = [(''out.glb'', [])]"
    using x o by (simp_all add: e)
  show ?thesis
    using m c r test_host_sprite(1,2) g by simp
qed

text \<open>
  Claim C2 as the specification states it fails: for the method \<open>sphere\<close>, which no script
  knows, both functions export a file (an empty scene), print the success line and return
  \<open>True\<close>; no error is raised for the method.
\<close>

theorem unknown_method_counterexample:
  "fst (create_3d_from_sprite test_host ''sprite.png'' ''out.glb'' (1 / 2) ''sphere'' empty_world)
       = Inr True
   \<and> files (snd (create_3d_from_sprite test_host ''sprite.png'' ''out.glb'' (1 / 2) ''sphere''
                    empty_world)) = [(''out.glb'', [])]
   \<and> last (stdout (snd (create_3d_from_sprite test_host ''sprite.png'' ''out.glb'' (1 / 2) ''sphere''
                    empty_world))) = success_mark @ '' Successfully exported: out.glb''
   \<and> fst (create_billboard_character test_host ''sprite.png'' ''out.glb'' ''sphere'' (1 / 10)
            empty_world) = Inr True
   \<and> files (snd (create_billboard_character test_host ''sprite.png'' ''out.glb'' ''sphere'' (1 / 10)
                    empty_world)) = [(''out.glb'', [])]"
proof -
  have nz: "(400 :: int) \<noteq> 0" by simp
  have g: "gltf_result test_host q obs = None" for q obs
    by (rule test_host_exporter)
  show ?thesis
    unfolding create_3d_from_sprite_loaded [OF test_host_sprite(1,2) nz]
      create_billboard_character_loaded [OF test_host_sprite(1,2) nz]
    by (simp add: Let_def export_and_report_accepted g) (simp add: empty_world_def)
qed

section \<open>Arguments and exit codes of the command-line scripts (claim C3)\<close>

text \<open>
  Claim C3, as amended. After \<open>--\<close>, blender-sprite-to-3d.py reads
  \<open><sprite_path> <output_path> [depth] [method]\<close> (as its usage text says; without them the
  depth is 0.5 and the method \<open>extrude\<close>), blender-character-to-3d.py reads
  \<open><sprite_path> <output_path> [method] [depth]\<close> (without them \<open>billboard-depth\<close> and 0.1),
  and blender-fbx-to-glb.py reads \<open><input> <output>\<close> only; further arguments are ignored.

  When the depth argument, if given, is one that \<open>float\<close> accepts and the output directory
  can be made, each of the two sprite scripts ends as its conversion function ends, called
  with these paths, depth and method: with \<open>sys.exit(0)\<close> when the function returns \<open>True\<close>
  and with \<open>sys.exit(1)\<close> when it returns \<open>False\<close>. It returns \<open>False\<close>, so the exit code is 1,
  for a sprite file that does not exist, in both scripts, and for an image that fails to load,
  in blender-sprite-to-3d.py.

  blender-fbx-to-glb.py calls \<open>sys.exit(1)\<close> for an input file that does not exist and for an
  import that raises; when the import succeeds and the output directory can be made, it calls
  \<open>sys.exit(1)\<close> if the export raises, and otherwise runs to its end, having written the file.

  With fewer than two arguments after \<open>--\<close> the sprite scripts print their usage text to the
  standard output and return without calling \<open>sys.exit\<close>; blender-fbx-to-glb.py, given
  \<open>--\<close>, prints its usage text and exits with code 1.
\<close>

theorem script_arguments_and_exit_codes:
  "(length (script_args argv0) < 2 \<longrightarrow>
       sprite_to_3d_main h argv0 w = (Finished, fold py_print sprite_to_3d_usage w)
     \<and> character_to_3d_main h argv0 w = (Finished, fold py_print character_to_3d_usage w)
     \<and> (''--'' \<in> set argv0 \<longrightarrow> fbx_to_glb_script h argv0 w = (Exit 1, py_print fbx_usage w)))
   \<and> (script_args argv1 = s # out # rest1
       \<and> (case rest1 of [] \<Rightarrow> Inr (1 / 2) | ds # r \<Rightarrow> py_float h ds) = Inr x1
       \<and> fst (ensure_output_dir h out w) = Inr () \<longrightarrow>
         snd (sprite_to_3d_main h argv1 w) =
           snd (create_3d_from_sprite h s out x1
                  (case rest1 of ds # m # r \<Rightarrow> m | r \<Rightarrow> ''extrude'')
                  (snd (ensure_output_dir h out w)))
       \<and> (\<forall>b. fst (create_3d_from_sprite h s out x1
                     (case rest1 of ds # m # r \<Rightarrow> m | r \<Rightarrow> ''extrude'')
                     (snd (ensure_output_dir h out w))) = Inr b \<longrightarrow>
               fst (sprite_to_3d_main h argv1 w) = Exit (if b then 0 else 1))
       \<and> (\<not> path_exists h (snd (ensure_output_dir h out w)) s \<longrightarrow>
               fst (sprite_to_3d_main h argv1 w) = Exit 1)
       \<and> (path_exists h w s \<and> images_load_result h s = Inl e \<longrightarrow>
               fst (sprite_to_3d_main h argv1 w) = Exit 1))
   \<and> (script_args argv2 = s # out # rest2
       \<and> (case rest2 of m # ds # r \<Rightarrow> py_float h ds | r \<Rightarrow> Inr (1 / 10)) = Inr x2
       \<and> fst (ensure_output_dir h out w) = Inr () \<longrightarrow>
         snd (character_to_3d_main h argv2 w) =
           snd (create_billboard_character h s out
                  (case rest2 of [] \<Rightarrow> ''billboard-depth'' | m # r \<Rightarrow> m) x2
                  (snd (ensure_output_dir h out w)))
       \<and> (\<forall>b. fst (create_billboard_character h s out
                     (case rest2 of [] \<Rightarrow> ''billboard-depth'' | m # r \<Rightarrow> m) x2
                     (snd (ensure_output_dir h out w))) = Inr b \<longrightarrow>
               fst (character_to_3d_main h argv2 w) = Exit (if b then 0 else 1))
       \<and> (\<not> path_exists h (snd (ensure_output_dir h out w)) s \<longrightarrow>
               fst (character_to_3d_main h argv2 w) = Exit 1))
   \<and> (script_args argv4 = i # out # rest4 \<longrightarrow>
         (\<not> path_exists h w i \<longrightarrow> fst (fbx_to_glb_script h argv4 w) = Exit 1)
       \<and> (path_exists h w i \<and> fbx_import_result h i = Inl e \<longrightarrow>
            fst (fbx_to_glb_script h argv4 w) = Exit 1)
       \<and> (path_exists h w i \<and> fbx_import_result h i = Inr obs
          \<and> makedirs_result h (os_path_dirname h out) = None \<longrightarrow>
            fst (fbx_to_glb_script h argv4 w) =
              (case gltf_result h (fbx_export_params out) obs of
                 None \<Rightarrow> Finished | Some e' \<Rightarrow> Exit 1)
          \<and> files (snd (fbx_to_glb_script h argv4 w)) =
              (case gltf_result h (fbx_export_params out) obs of
                 None \<Rightarrow> files w @ [(out, obs)] | Some e' \<Rightarrow> files w)))"
proof -
  let ?w1 = "snd (ensure_output_dir h out w)"
  let ?m1 = "case rest1 of ds # m # r \<Rightarrow> m | r \<Rightarrow> ''extrude''"
  let ?m2 = "case rest2 of [] \<Rightarrow> ''billboard-depth'' | m # r \<Rightarrow> m"
  have A: "length (script_args argv0) < 2 \<longrightarrow>
       sprite_to_3d_main h argv0 w = (Finished, fold py_print sprite_to_3d_usage w)
     \<and> character_to_3d_main h argv0 w = (Finished, fold py_print character_to_3d_usage w)
     \<and> (''--'' \<in> set argv0 \<longrightarrow> fbx_to_glb_script h argv0 w = (Exit 1, py_print fbx_usage w))"
    by (simp add: sprite_to_3d_main_usage character_to_3d_main_usage fbx_to_glb_script_usage)
  have B: "snd (sprite_to_3d_main h argv1 w) = snd (create_3d_from_sprite h s out x1 ?m1 ?w1)
       \<and> (\<forall>b. fst (create_3d_from_sprite h s out x1 ?m1 ?w1) = Inr b \<longrightarrow>
               fst (sprite_to_3d_main h argv1 w) = Exit (if b then 0 else 1))
       \<and> (\<not> path_exists h ?w1 s \<longrightarrow> fst (sprite_to_3d_main h argv1 w) = Exit 1)
       \<and> (path_exists h w s \<and> images_load_result h s = Inl e \<longrightarrow>
               fst (sprite_to_3d_main h argv1 w) = Exit 1)"
    if a: "script_args argv1 = s # out # rest1"
      and f: "(case rest1 of [] \<Rightarrow> Inr (1 / 2) | ds # r \<Rightarrow> py_float h ds) = Inr x1"
      and en: "fst (ensure_output_dir h out w) = Inr ()"
  proof -
    note run = sprite_to_3d_main_converts [OF a f en]
    have b1: "snd (sprite_to_3d_main h argv1 w) = snd (create_3d_from_sprite h s out x1 ?m1 ?w1)"
      unfolding run by simp
    have b2: "\<forall>b. fst (create_3d_from_sprite h s out x1 ?m1 ?w1) = Inr b \<longrightarrow>
               fst (sprite_to_3d_main h argv1 w) = Exit (if b then 0 else 1)"
      unfolding run by (intro allI impI) (rule exit_with_fst)
    have b3: "\<not> path_exists h ?w1 s \<longrightarrow> fst (sprite_to_3d_main h argv1 w) = Exit 1"
    proof
      assume "\<not> path_exists h ?w1 s"
      from exit_with_fst [OF create_3d_from_sprite_missing [OF this, of out x1 ?m1]]
      show "fst (sprite_to_3d_main h argv1 w) = Exit 1"
        unfolding run by simp
    qed
    have b4: "path_exists h w s \<and> images_load_result h s = Inl e \<longrightarrow>
               fst (sprite_to_3d_main h argv1 w) = Exit 1"
    proof
      assume l: "path_exists h w s \<and> images_load_result h s = Inl e"
      then have p1: "path_exists h ?w1 s"
        using ensure_output_dir_exists [of h w s out] by simp
      from exit_with_fst [OF create_3d_load_fails [OF p1 l [THEN conjunct2], of out x1 ?m1]]
      show "fst (sprite_to_3d_main h argv1 w) = Exit 1"
        unfolding run by simp
    qed
    show ?thesis
      using b1 b2 b3 b4 by (intro conjI) assumption+
  qed
  have C: "snd (character_to_3d_main h argv2 w) = snd (create_billboard_character h s out ?m2 x2 ?w1)
       \<and> (\<forall>b. fst (create_billboard_character h s out ?m2 x2 ?w1) = Inr b \<longrightarrow>
               fst (character_to_3d_main h argv2 w) = Exit (if b then 0 else 1))
       \<and> (\<not> path_exists h ?w1 s \<longrightarrow> fst (character_to_3d_main h argv2 w) = Exit 1)"
    if a: "script_args argv2 = s # out # rest2"
      and f: "(case rest2 of m # ds # r \<Rightarrow> py_float h ds | r \<Rightarrow> Inr (1 / 10)) = Inr x2"
      and en: "fst (ensure_output_dir h out w) = Inr ()"
  proof -
    note run = character_to_3d_main_converts [OF a f en]
    have c1: "snd (character_to_3d_main h argv2 w) =
                snd (create_billboard_character h s out ?m2 x2 ?w1)"
      unfolding run by simp
    have c2: "\<forall>b. fst (create_billboard_character h s out ?m2 x2 ?w1) = Inr b \<longrightarrow>
               fst (character_to_3d_main h argv2 w) = Exit (if b then 0 else 1)"
      unfolding run by (intro allI impI) (rule exit_with_fst)
    have c3: "\<not> path_exists h ?w1 s \<longrightarrow> fst (character_to_3d_main h argv2 w) = Exit 1"
    proof
      assume "\<not> path_exists h ?w1 s"
      from exit_with_fst [OF create_billboard_character_missing [OF this, of out ?m2 x2]]
      show "fst (character_to_3d_main h argv2 w) = Exit 1"
        unfolding run by simp
    qed
    show ?thesis
      using c1 c2 c3 by (intro conjI) assumption+
  qed
  have E: "(\<not> path_exists h w i \<longrightarrow> fst (fbx_to_glb_script h argv4 w) = Exit 1)
       \<and> (path_exists h w i \<and> fbx_import_result h i = Inl e \<longrightarrow>
            fst (fbx_to_glb_script h argv4 w) = Exit 1)
       \<and> (path_exists h w i \<and> fbx_import_result h i = Inr obs
          \<and> makedirs_result h (os_path_dirname h out) = None \<longrightarrow>
            fst (fbx_to_glb_script h argv4 w) =
              (case gltf_result h (fbx_export_params out) obs of
                 None \<Rightarrow> Finished | Some e' \<Rightarrow> Exit 1)
          \<and> files (snd (fbx_to_glb_script h argv4 w)) =
              (case gltf_result h (fbx_export_params out) obs of
                 None \<Rightarrow> files w @ [(out, obs)] | Some e' \<Rightarrow> files w))"
    if a: "script_args argv4 = i # out # rest4"
  proof (intro conjI impI)
    assume "\<not> path_exists h w i"
    then show "fst (fbx_to_glb_script h argv4 w) = Exit 1"
      by (rule fbx_missing_input(1) [OF a])
  next
    assume "path_exists h w i \<and> fbx_import_result h i = Inl e"
    then show "fst (fbx_to_glb_script h argv4 w) = Exit 1"
      using fbx_import_fails(1) [OF a, of h w e] by simp
  next
    assume l: "path_exists h w i \<and> fbx_import_result h i = Inr obs
          \<and> makedirs_result h (os_path_dirname h out) = None"
    then show "fst (fbx_to_glb_script h argv4 w) =
              (case gltf_result h (fbx_export_params out) obs of
                 None \<Rightarrow> Finished | Some e' \<Rightarrow> Exit 1)"
      using fbx_imported(1) [OF a, of h w obs] by simp
  next
    assume l: "path_exists h w i \<and> fbx_import_result h i = Inr obs
          \<and> makedirs_result h (os_path_dirname h out) = None"
    then show "files (snd (fbx_to_glb_script h argv4 w)) =
              (case gltf_result h (fbx_export_params out) obs of
                 None \<Rightarrow> files w @ [(out, obs)] | Some e' \<Rightarrow> files w)"
      using fbx_imported(2) [OF a, of h w obs] by simp
  qed
  have B': "script_args argv1 = s # out # rest1
       \<and> (case rest1 of [] \<Rightarrow> Inr (1 / 2) | ds # r \<Rightarrow> py_float h ds) = Inr x1
       \<and> fst (ensure_output_dir h out w) = Inr () \<longrightarrow>
         snd (sprite_to_3d_main h argv1 w) = snd (create_3d_from_sprite h s out x1 ?m1 ?w1)
       \<and> (\<forall>b. fst (create_3d_from_sprite h s out x1 ?m1 ?w1) = Inr b \<longrightarrow>
               fst (sprite_to_3d_main h argv1 w) = Exit (if b then 0 else 1))
       \<and> (\<not> path_exists h ?w1 s \<longrightarrow> fst (sprite_to_3d_main h argv1 w) = Exit 1)
       \<and> (path_exists h w s \<and> images_load_result h s = Inl e \<longrightarrow>
               fst (sprite_to_3d_main h argv1 w) = Exit 1)"
    by (intro impI, elim conjE) (rule B)
  have C': "script_args argv2 = s # out # rest2
       \<and> (case rest2 of m # ds # r \<Rightarrow> py_float h ds | r \<Rightarrow> Inr (1 / 10)) = Inr x2
       \<and> fst (ensure_output_dir h out w) = Inr () \<longrightarrow>
         snd (character_to_3d_main h argv2 w) = snd (create_billboard_character h s out ?m2 x2 ?w1)
       \<and> (\<forall>b. fst (create_billboard_character h s out ?m2 x2 ?w1) = Inr b \<longrightarrow>
               fst (character_to_3d_main h argv2 w) = Exit (if b then 0 else 1))
       \<and> (\<not> path_exists h ?w1 s \<longrightarrow> fst (character_to_3d_main h argv2 w) = Exit 1)"
    by (intro impI, elim conjE) (rule C)
  have E': "script_args argv4 = i # out # rest4 \<longrightarrow>
         (\<not> path_exists h w i \<longrightarrow> fst (fbx_to_glb_script h argv4 w) = Exit 1)
       \<and> (path_exists h w i \<and> fbx_import_result h i = Inl e \<longrightarrow>
            fst (fbx_to_glb_script h argv4 w) = Exit 1)
       \<and> (path_exists h w i \<and> fbx_import_result h i = Inr obs
          \<and> makedirs_result h (os_path_dirname h out) = None \<longrightarrow>
            fst (fbx_to_glb_script h argv4 w) =
              (case gltf_result h (fbx_export_params out) obs of
                 None \<Rightarrow> Finished | Some e' \<Rightarrow> Exit 1)
          \<and> files (snd (fbx_to_glb_script h argv4 w)) =
              (case gltf_result h (fbx_export_params out) obs of
                 None \<Rightarrow> files w @ [(out, obs)] | Some e' \<Rightarrow> files w))"
    by (intro impI) (rule E)
  show ?thesis
    using A B' C' E' by (intro conjI) assumption+
qed

text \<open>
  The theorem at concrete hosts, from the empty world: calls of both sprite scripts with two,
  three and four arguments, which exit with code 0 and build the scene of the depth and
  method given or taken by default; a sprite that does not exist and an image that does not
  load; the FBX script where the input is missing, where the import raises, where the export
  raises and where it succeeds; and the usage texts.
\<close>

theorem script_arguments_and_exit_codes_witness:
  "length (script_args [''blender'', ''--'', ''sprite.png'']) < 2
   \<and> ''--'' \<in> set [''blender'', ''--'', ''sprite.png'']
   \<and> sprite_to_3d_main test_host [''blender'', ''--'', ''sprite.png''] empty_world =
        (Finished, empty_world\<lparr>stdout := sprite_to_3d_usage\<rparr>)
   \<and> character_to_3d_main test_host [''blender'', ''--'', ''sprite.png''] empty_world =
        (Finished, empty_world\<lparr>stdout := character_to_3d_usage\<rparr>)
   \<and> fbx_to_glb_script test_host [''blender'', ''--'', ''sprite.png''] empty_world =
        (Exit 1, empty_world\<lparr>stdout := [fbx_usage]\<rparr>)
   \<and> fst (ensure_output_dir test_host ''out.glb'' empty_world) = Inr ()
   \<and> script_args [''blender'', ''--'', ''sprite.png'', ''out.glb''] = [''sprite.png'', ''out.glb'']
   \<and> fst (sprite_to_3d_main test_host [''blender'', ''--'', ''sprite.png'', ''out.glb'']
             empty_world) = Exit 0
   \<and> map obj_scale (objects (snd (sprite_to_3d_main test_host
             [''blender'', ''--'', ''sprite.png'', ''out.glb''] empty_world))) = [(2, 1, 1 / 2)]
   \<and> script_args [''blender'', ''--'', ''sprite.png'', ''out.glb'', ''0.4''] =
        [''sprite.png'', ''out.glb'', ''0.4'']
   \<and> py_float test_host ''0.4'' = Inr (2 / 5)
   \<and> fst (sprite_to_3d_main test_host [''blender'', ''--'', ''sprite.png'', ''out.glb'', ''0.4'']
             empty_world) = Exit 0
   \<and> map obj_scale (objects (snd (sprite_to_3d_main test_host
             [''blender'', ''--'', ''sprite.png'', ''out.glb'', ''0.4''] empty_world))) =
        [(2, 1, 2 / 5)]
   \<and> script_args [''blender'', ''--'', ''sprite.png'', ''out.glb'', ''0.4'', ''voxel''] =
        [''sprite.png'', ''out.glb'', ''0.4'', ''voxel'']
   \<and> fst (sprite_to_3d_main test_host
             [''blender'', ''--'', ''sprite.png'', ''out.glb'', ''0.4'', ''voxel''] empty_world) = Exit 0
   \<and> map obj_shape (objects (snd (sprite_to_3d_main test_host
             [''blender'', ''--'', ''sprite.png'', ''out.glb'', ''0.4'', ''voxel''] empty_world))) =
        replicate 8 Plane
   \<and> fst (character_to_3d_main test_host [''blender'', ''--'', ''sprite.png'', ''out.glb'']
             empty_world) = Exit 0
   \<and> map obj_location (objects (snd (character_to_3d_main test_host
             [''blender'', ''--'', ''sprite.png'', ''out.glb''] empty_world))) =
        [(0, 0, 0), (0, - (1 / 10), 0)]
   \<and> script_args [''blender'', ''--'', ''sprite.png'', ''out.glb'', ''capsule''] =
        [''sprite.png'', ''out.glb'', ''capsule'']
   \<and> fst (character_to_3d_main test_host [''blender'', ''--'', ''sprite.png'', ''out.glb'', ''capsule'']
             empty_world) = Exit 0
   \<and> map obj_shape (objects (snd (character_to_3d_main test_host
             [''blender'', ''--'', ''sprite.png'', ''out.glb'', ''capsule''] empty_world))) =
        [UVSphere, Plane]
   \<and> script_args [''blender'', ''--'', ''sprite.png'', ''out.glb'', ''billboard-depth'', ''0.4''] =
        [''sprite.png'', ''out.glb'', ''billboard-depth'', ''0.4'']
   \<and> fst (character_to_3d_main test_host
             [''blender'', ''--'', ''sprite.png'', ''out.glb'', ''billboard-depth'', ''0.4'']
             empty_world) = Exit 0
   \<and> map obj_location (objects (snd (character_to_3d_main test_host
             [''blender'', ''--'', ''sprite.png'', ''out.glb'', ''billboard-depth'', ''0.4'']
             empty_world))) = [(0, 0, 0), (0, - (2 / 5), 0)]
   \<and> script_args [''blender'', ''--'', ''nothing.png'', ''out.glb''] = [''nothing.png'', ''out.glb'']
   \<and> \<not> path_exists test_host (snd (ensure_output_dir test_host ''out.glb'' empty_world)) ''nothing.png''
   \<and> fst (sprite_to_3d_main test_host [''blender'', ''--'', ''nothing.png'', ''out.glb''] empty_world)
        = Exit 1
   \<and> fst (character_to_3d_main test_host [''blender'', ''--'', ''nothing.png'', ''out.glb'']
             empty_world) = Exit 1
   \<and> path_exists broken_loader_host empty_world ''sprite.png''
   \<and> images_load_result broken_loader_host ''sprite.png'' = Inl RuntimeError
   \<and> fst (ensure_output_dir broken_loader_host ''out.glb'' empty_world) = Inr ()
   \<and> fst (sprite_to_3d_main broken_loader_host [''blender'', ''--'', ''sprite.png'', ''out.glb'']
             empty_world) = Exit 1
   \<and> script_args [''blender'', ''--'', ''nothing.fbx'', ''out.glb''] = [''nothing.fbx'', ''out.glb'']
   \<and> \<not> path_exists test_host empty_world ''nothing.fbx''
   \<and> fst (fbx_to_glb_script test_host [''blender'', ''--'', ''nothing.fbx'', ''out.glb''] empty_world)
        = Exit 1
   \<and> script_args [''blender'', ''--'', ''model.fbx'', ''out.glb''] = [''model.fbx'', ''out.glb'']
   \<and> path_exists broken_loader_host empty_world ''model.fbx''
   \<and> fbx_import_result broken_loader_host ''model.fbx'' = Inl RuntimeError
   \<and> fst (fbx_to_glb_script broken_loader_host [''blender'', ''--'', ''model.fbx'', ''out.glb'']
             empty_world) = Exit 1
   \<and> path_exists test_host empty_world ''model.fbx''
   \<and> fbx_import_result test_host ''model.fbx'' = Inr []
   \<and> makedirs_result test_host (os_path_dirname test_host ''out.glb'') = None
   \<and> fst (fbx_to_glb_script test_host [''blender'', ''--'', ''model.fbx'', ''out.glb''] empty_world)
        = Finished
   \<and> files (snd (fbx_to_glb_script test_host [''blender'', ''--'', ''model.fbx'', ''out.glb'']
                    empty_world)) = [(''out.glb'', [])]
   \<and> fst (fbx_to_glb_script broken_exporter_host [''blender'', ''--'', ''model.fbx'', ''out.glb'']
             empty_world) = Exit 1
   \<and> files (snd (fbx_to_glb_script broken_exporter_host [''blender'', ''--'', ''model.fbx'', ''out.glb'']
                    empty_world)) = []"
proof -
  let ?a0 = "[''blender'', ''--'', ''sprite.png'']"
  let ?s2 = "[''blender'', ''--'', ''sprite.png'', ''out.glb'']"
  let ?s3 = "[''blender'', ''--'', ''sprite.png'', ''out.glb'', ''0.4'']"
  let ?s4 = "[''blender'', ''--'', ''sprite.png'', ''out.glb'', ''0.4'', ''voxel'']"
  let ?c3 = "[''blender'', ''--'', ''sprite.png'', ''out.glb'', ''capsule'']"
  let ?c4 = "[''blender'', ''--'', ''sprite.png'', ''out.glb'', ''billboard-depth'', ''0.4'']"
  let ?n2 = "[''blender'', ''--'', ''nothing.png'', ''out.glb'']"
  let ?f0 = "[''blender'', ''--'', ''nothing.fbx'', ''out.glb'']"
  let ?f2 = "[''blender'', ''--'', ''model.fbx'', ''out.glb'']"
  let ?w1 = "empty_world\<lparr>dirs := [''.'']\<rparr>"
  have nz: "(400 :: int) \<noteq> 0" by simp
  have g: "gltf_result test_host q obs = None" for q obs
    by (rule test_host_exporter)
  have args0: "length (script_args ?a0) < 2" "''--'' \<in> set ?a0"
    by (simp_all add: script_args_def)
  have args: "script_args ?s2 = [''sprite.png'', ''out.glb'']"
    "script_args ?s3 = [''sprite.png'', ''out.glb'', ''0.4'']"
    "script_args ?s4 = [''sprite.png'', ''out.glb'', ''0.4'', ''voxel'']"
    "script_args ?c3 = [''sprite.png'', ''out.glb'', ''capsule'']"
    "script_args ?c4 = [''sprite.png'', ''out.glb'', ''billboard-depth'', ''0.4'']"
    "script_args ?n2 = [''nothing.png'', ''out.glb'']"
    "script_args ?f0 = [''nothing.fbx'', ''out.glb'']"
    "script_args ?f2 = [''model.fbx'', ''out.glb'']"
    by (simp_all add: script_args_def)
  have en: "fst (ensure_output_dir test_host ''out.glb'' empty_world) = Inr ()"
    "snd (ensure_output_dir test_host ''out.glb'' empty_world) = ?w1"
    "fst (ensure_output_dir broken_loader_host ''out.glb'' empty_world) = Inr ()"
    by (simp_all add: test_host_paths broken_host_paths)
  have w1: "objects ?w1 = []" "materials ?w1 = []"
    by (simp_all add: empty_world_def)
  note ex = test_host_paths(2) test_host_sprite(2) nz
  have d0: "(case [] :: string list of [] \<Rightarrow> Inr (1 / 2) | ds # r \<Rightarrow> py_float test_host ds) = Inr (1 / 2)"
    "(case [''0.4''] of [] \<Rightarrow> Inr (1 / 2) | ds # r \<Rightarrow> py_float test_host ds) = Inr (2 / 5)"
    "(case [''0.4'', ''voxel''] of [] \<Rightarrow> Inr (1 / 2) | ds # r \<Rightarrow> py_float test_host ds) = Inr (2 / 5)"
    "(case [] :: string list of [] \<Rightarrow> Inr (1 / 2) | ds # r \<Rightarrow> py_float broken_loader_host ds) = Inr (1 / 2)"
    by (simp_all add: test_host_floats)
  have d1: "(case [] :: string list of m # ds # r \<Rightarrow> py_float test_host ds | r \<Rightarrow> Inr (1 / 10)) = Inr (1 / 10)"
    "(case [''capsule''] of m # ds # r \<Rightarrow> py_float test_host ds | r \<Rightarrow> Inr (1 / 10)) = Inr (1 / 10)"
    "(case [''billboard-depth'', ''0.4''] of m # ds # r \<Rightarrow> py_float test_host ds | r \<Rightarrow> Inr (1 / 10))
       = Inr (2 / 5)"
    by (simp_all add: test_host_floats)
  note T = script_arguments_and_exit_codes
  note S = T [THEN conjunct2, THEN conjunct1, THEN mp]
  note C = T [THEN conjunct2, THEN conjunct2, THEN conjunct1, THEN mp]
  note F = T [THEN conjunct2, THEN conjunct2, THEN conjunct2, THEN mp]
  have u: "sprite_to_3d_main test_host ?a0 empty_world = (Finished, empty_world\<lparr>stdout := sprite_to_3d_usage\<rparr>)"
    "character_to_3d_main test_host ?a0 empty_world = (Finished, empty_world\<lparr>stdout := character_to_3d_usage\<rparr>)"
    "fbx_to_glb_script test_host ?a0 empty_world = (Exit 1, empty_world\<lparr>stdout := [fbx_usage]\<rparr>)"
    using T [THEN conjunct1, THEN mp, OF args0(1), of test_host empty_world] args0(2)
    by (simp_all add: sprite_to_3d_usage_def character_to_3d_usage_def py_print_def empty_world_def)
  note s2 = S [OF conjI [OF args(1) conjI [OF d0(1) en(1)]]]
  note s3 = S [OF conjI [OF args(2) conjI [OF d0(2) en(1)]]]
  note s4 = S [OF conjI [OF args(3) conjI [OF d0(3) en(1)]]]
  have k2: "fst (create_3d_from_sprite test_host ''sprite.png'' ''out.glb'' x m ?w1) = Inr True" for x m
    by (rule create_3d_from_sprite_accepted [OF ex g])
  have r2: "fst (sprite_to_3d_main test_host ?s2 empty_world) = Exit 0"
    "fst (sprite_to_3d_main test_host ?s3 empty_world) = Exit 0"
    "fst (sprite_to_3d_main test_host ?s4 empty_world) = Exit 0"
    using s2 [THEN conjunct2, THEN conjunct1, rule_format, of True]
      s3 [THEN conjunct2, THEN conjunct1, rule_format, of True]
      s4 [THEN conjunct2, THEN conjunct1, rule_format, of True]
    by (simp_all add: en(2) k2)
  have o2: "map obj_scale (objects (snd (sprite_to_3d_main test_host ?s2 empty_world))) = [(2, 1, 1 / 2)]"
    "map obj_scale (objects (snd (sprite_to_3d_main test_host ?s3 empty_world))) = [(2, 1, 2 / 5)]"
    "map obj_shape (objects (snd (sprite_to_3d_main test_host ?s4 empty_world))) = replicate 8 Plane"
    unfolding s2 [THEN conjunct1] s3 [THEN conjunct1] s4 [THEN conjunct1] en(2)
    by (simp_all add: create_3d_extrude_world(1) [OF ex] create_3d_voxel_world(1) [OF ex] w1
          extrude_cube_def voxel_plane_def primitive_def upt_layers numeral_eq_Suc)
  note c2 = C [OF conjI [OF args(1) conjI [OF d1(1) en(1)]]]
  note c3 = C [OF conjI [OF args(4) conjI [OF d1(2) en(1)]]]
  note c4 = C [OF conjI [OF args(5) conjI [OF d1(3) en(1)]]]
  have k3: "fst (create_billboard_character test_host ''sprite.png'' ''out.glb'' m x ?w1) = Inr True"
    for x m
    by (rule create_billboard_character_accepted [OF ex g])
  have r3: "fst (character_to_3d_main test_host ?s2 empty_world) = Exit 0"
    "fst (character_to_3d_main test_host ?c3 empty_world) = Exit 0"
    "fst (character_to_3d_main test_host ?c4 empty_world) = Exit 0"
    using c2 [THEN conjunct2, THEN conjunct1, rule_format, of True]
      c3 [THEN conjunct2, THEN conjunct1, rule_format, of True]
      c4 [THEN conjunct2, THEN conjunct1, rule_format, of True]
    by (simp_all add: en(2) k3)
  have o3: "map obj_location (objects (snd (character_to_3d_main test_host ?s2 empty_world))) =
              [(0, 0, 0), (0, - (1 / 10), 0)]"
    "map obj_shape (objects (snd (character_to_3d_main test_host ?c3 empty_world))) = [UVSphere, Plane]"
    "map obj_location (objects (snd (character_to_3d_main test_host ?c4 empty_world))) =
              [(0, 0, 0), (0, - (2 / 5), 0)]"
    unfolding c2 [THEN conjunct1] c3 [THEN conjunct1] c4 [THEN conjunct1] en(2)
    by (simp_all add: create_billboard_character_loaded [OF ex] Let_def export_and_report_keeps
          add_billboard_eq add_shadow_eq add_capsule_eq w1 billboard_plane_def primitive_def)
  have n3: "\<not> path_exists test_host (snd (ensure_output_dir test_host ''out.glb'' empty_world))
               ''nothing.png''"
    unfolding en(2) by (rule test_host_paths)
  have r4: "fst (sprite_to_3d_main test_host ?n2 empty_world) = Exit 1"
    "fst (character_to_3d_main test_host ?n2 empty_world) = Exit 1"
    using S [OF conjI [OF args(6) conjI [OF d0(1) en(1)]], THEN conjunct2, THEN conjunct2,
             THEN conjunct1, THEN mp, OF n3]
      C [OF conjI [OF args(6) conjI [OF d1(1) en(1)]], THEN conjunct2, THEN conjunct2, THEN mp, OF n3]
    by - assumption+
  have bl: "path_exists broken_loader_host empty_world ''sprite.png''"
    "images_load_result broken_loader_host ''sprite.png'' = Inl RuntimeError"
    "path_exists broken_loader_host empty_world ''model.fbx''"
    "fbx_import_result broken_loader_host ''model.fbx'' = Inl RuntimeError"
    by (simp_all add: broken_host_paths broken_hosts test_host_sprite test_host_paths)
  have r5: "fst (sprite_to_3d_main broken_loader_host ?s2 empty_world) = Exit 1"
    using S [OF conjI [OF args(1) conjI [OF d0(4) en(3)]], THEN conjunct2, THEN conjunct2,
             THEN conjunct2, THEN mp, OF conjI [OF bl(1,2)]] .
  have fx: "path_exists test_host empty_world ''model.fbx''"
    "fbx_import_result test_host ''model.fbx'' = Inr []"
    "makedirs_result test_host (os_path_dirname test_host ''out.glb'') = None"
    "path_exists broken_exporter_host empty_world ''model.fbx''"
    "fbx_import_result broken_exporter_host ''model.fbx'' = Inr []"
    "makedirs_result broken_exporter_host (os_path_dirname broken_exporter_host ''out.glb'') = None"
    by (simp_all add: broken_host_paths broken_hosts test_host_paths test_host_exporter)
       (simp add: test_host_def)
  have r6: "fst (fbx_to_glb_script test_host ?f0 empty_world) = Exit 1"
    using F [OF args(7), THEN conjunct1, THEN mp, OF test_host_paths(4)] .
  have r7: "fst (fbx_to_glb_script broken_loader_host ?f2 empty_world) = Exit 1"
    using F [OF args(8), THEN conjunct2, THEN conjunct1, THEN mp, OF conjI [OF bl(3,4)]] .
  have r8: "fst (fbx_to_glb_script test_host ?f2 empty_world) = Finished"
    "files (snd (fbx_to_glb_script test_host ?f2 empty_world)) = [(''out.glb'', [])]"
    using F [OF args(8), THEN conjunct2, THEN conjunct2, THEN mp,
             OF conjI [OF fx(1) conjI [OF fx(2,3)]]]
    by (simp_all add: g empty_world_def)
  have r9: "fst (fbx_to_glb_script broken_exporter_host ?f2 empty_world) = Exit 1"
    "files (snd (fbx_to_glb_script broken_exporter_host ?f2 empty_world)) = []"
    using F [OF args(8), THEN conjunct2, THEN conjunct2, THEN mp,
             OF conjI [OF fx(4) conjI [OF fx(5,6)]]]
    by (simp_all add: broken_hosts(6) empty_world_def)
  show ?thesis
    using args0 args en(1,3) test_host_floats(1) u r2 o2 r3 o3 n3 r4 bl r5 fx(1-3)
      test_host_paths(4) r6 r7 r8 r9
    by simp
qed

text \<open>
  Claim C3 as the specification states it fails. Given the arguments in the claim's order
  (method, then depth), blender-sprite-to-3d.py calls \<open>float\<close> on the method and stops on an
  uncaught ValueError; given depth, then method, it converts and exits with code 0. An image
  that fails to load in blender-character-to-3d.py, and an export that raises in either
  sprite script, is an exception that nothing catches: the script sets no exit code.
\<close>

theorem argument_order_counterexample:
  "sprite_to_3d_main test_host
     [''blender'', ''--'', ''sprite.png'', ''out.glb'', ''voxel'', ''0.4''] empty_world =
     (Uncaught ValueError, empty_world)
   \<and> fst (sprite_to_3d_main test_host
            [''blender'', ''--'', ''sprite.png'', ''out.glb'', ''0.4'', ''voxel''] empty_world) = Exit 0
   \<and> length (objects (snd (sprite_to_3d_main test_host
            [''blender'', ''--'', ''sprite.png'', ''out.glb'', ''0.4'', ''voxel''] empty_world))) = 8
   \<and> fst (character_to_3d_main broken_loader_host
            [''blender'', ''--'', ''sprite.png'', ''out.glb''] empty_world) = Uncaught RuntimeError
   \<and> fst (sprite_to_3d_main broken_exporter_host
            [''blender'', ''--'', ''sprite.png'', ''out.glb''] empty_world) = Uncaught RuntimeError
   \<and> fst (character_to_3d_main broken_exporter_host
            [''blender'', ''--'', ''sprite.png'', ''out.glb''] empty_world) = Uncaught RuntimeError"
proof -
  let ?a1 = "[''blender'', ''--'', ''sprite.png'', ''out.glb'', ''voxel'', ''0.4'']"
  let ?a2 = "[''blender'', ''--'', ''sprite.png'', ''out.glb'', ''0.4'', ''voxel'']"
  let ?a3 = "[''blender'', ''--'', ''sprite.png'', ''out.glb'']"
  let ?w1 = "empty_world\<lparr>dirs := [''.'']\<rparr>"
  have nz: "(400 :: int) \<noteq> 0" by simp
  have g: "gltf_result test_host q obs = None" for q obs
    by (rule test_host_exporter)
  have args: "script_args ?a1 = [''sprite.png'', ''out.glb'', ''voxel'', ''0.4'']"
    "script_args ?a2 = [''sprite.png'', ''out.glb'', ''0.4'', ''voxel'']"
    "script_args ?a3 = [''sprite.png'', ''out.glb'']"
    by (simp_all add: script_args_def)
  have fl: "py_float test_host ''voxel'' = Inl ValueError" "py_float test_host ''0.4'' = Inr (2 / 5)"
    by (simp_all add: py_float_def test_host_def)
  have A: "sprite_to_3d_main test_host ?a1 empty_world = (Uncaught ValueError, empty_world)"
    by (simp add: sprite_to_3d_main_args [OF args(1)] fl)
  have run: "sprite_to_3d_main test_host ?a2 empty_world =
               exit_with (create_3d_from_sprite test_host ''sprite.png'' ''out.glb'' (2 / 5) ''voxel'' ?w1)"
    by (simp add: sprite_to_3d_main_args [OF args(2)] fl test_host_paths(1))
  have B: "fst (sprite_to_3d_main test_host ?a2 empty_world) = Exit 0"
    using create_3d_from_sprite_accepted [OF test_host_paths(2) test_host_sprite(2) nz g,
        of "''out.glb''" "2 / 5" "''voxel''"]
    unfolding run
    by (cases "create_3d_from_sprite test_host ''sprite.png'' ''out.glb'' (2 / 5) ''voxel'' ?w1") simp
  have C: "length (objects (snd (sprite_to_3d_main test_host ?a2 empty_world))) = 8"
    unfolding run
    by (simp add: create_3d_voxel_world(1) [OF test_host_paths(2) test_host_sprite(2) nz] layers_def)
       (simp add: empty_world_def)
  have pl: "path_exists broken_loader_host ?w1 ''sprite.png''"
    "path_exists broken_exporter_host ?w1 ''sprite.png''"
    by (simp_all add: broken_host_paths test_host_paths)
  have D: "fst (character_to_3d_main broken_loader_host ?a3 empty_world) = Uncaught RuntimeError"
    using pl(1)
    by (simp add: character_to_3d_main_args [OF args(3)] broken_host_paths test_host_paths(1)
          create_billboard_character_def load_sprite_image_def images_load_def broken_hosts)
  have ld: "images_load_result broken_exporter_host ''sprite.png'' = Inr (800, 400)"
    by (simp add: broken_hosts test_host_sprite)
  have E: "fst (sprite_to_3d_main broken_exporter_host ?a3 empty_world) = Uncaught RuntimeError"
  proof -
    have "fst (create_3d_from_sprite broken_exporter_host ''sprite.png'' ''out.glb'' (1 / 2) ''extrude'' ?w1)
            = Inl RuntimeError"
      by (simp add: create_3d_from_sprite_loaded [OF pl(2) ld nz] Let_def
            sprite_extrude_eq [OF ld] export_and_report_refused broken_hosts)
    then show ?thesis
      by (cases "create_3d_from_sprite broken_exporter_host ''sprite.png'' ''out.glb'' (1 / 2) ''extrude'' ?w1")
         (simp add: sprite_to_3d_main_args [OF args(3)] broken_host_paths test_host_paths(1))
  qed
  have F: "fst (character_to_3d_main broken_exporter_host ?a3 empty_world) = Uncaught RuntimeError"
  proof -
    have "fst (create_billboard_character broken_exporter_host ''sprite.png'' ''out.glb''
                 ''billboard-depth'' (1 / 10) ?w1) = Inl RuntimeError"
      by (simp add: create_billboard_character_loaded [OF pl(2) ld nz] Let_def
            export_and_report_refused broken_hosts)
    then show ?thesis
      by (cases "create_billboard_character broken_exporter_host ''sprite.png'' ''out.glb''
                 ''billboard-depth'' (1 / 10) ?w1")
         (simp add: character_to_3d_main_args [OF args(3)] broken_host_paths test_host_paths(1))
  qed
  show ?thesis
    using A B C D E F by simp
qed

end
